theory Spec2Isabelle
  imports Complex_Main "HOL-Library.Sublist"
begin

section \<open>Python arithmetic used by the trader\<close>

text \<open>
  Python floats are modelled as exact reals. \<open>int(x)\<close> truncates toward zero;
  \<open>a // b\<close> on floats is the floor of the quotient and raises ZeroDivisionError
  when \<open>b = 0\<close>.
\<close>

definition py_int :: "real \<Rightarrow> int" where
  "py_int x = (if 0 \<le> x then \<lfloor>x\<rfloor> else \<lceil>x\<rceil>)"

definition py_floordiv :: "real \<Rightarrow> real \<Rightarrow> real option" where
  "py_floordiv a b = (if b = 0 then None else Some (of_int \<lfloor>a / b\<rfloor>))"

section \<open>The broker session as seen by \<open>TradeExecutor\<close>\<close>

datatype side = BUY | SELL

datatype order_type = MKT | LMT | STP

text \<open>
  The OCA group of an order: unset, \<open>OCA_EXIT_{symbol}\<close> (set by the upsert
  operations) or \<open>OCA_{parent_id}\<close> (set by the bracket entry).
\<close>

datatype oca_group = NoOca | OCA_EXIT string | OCA_PARENT nat

record order =
  orderId :: nat
  action :: side
  orderType :: order_type
  totalQuantity :: int
  lmtPrice :: "real option"
  auxPrice :: "real option"
  ocaGroup :: oca_group
  ocaType :: nat
  parentId :: nat
  transmit :: bool

text \<open>An open trade pairs the contract (its symbol) with the order.\<close>

record trade =
  contract_symbol :: string
  trade_order :: order

text \<open>
  The session: the open trades in the order the broker reports them, the positions
  (symbol and held quantity), the request-id counter of the client, and the ids of
  the orders for which \<open>cancelOrder\<close> raises.
\<close>

record ib_state =
  open_trades :: "trade list"
  positions :: "(string \<times> real) list"
  next_req_id :: nat
  cancel_raises :: "nat list"

definition MarketOrder :: "side \<Rightarrow> int \<Rightarrow> order" where
  "MarketOrder a q =
     \<lparr>orderId = 0, action = a, orderType = MKT, totalQuantity = q, lmtPrice = None,
      auxPrice = None, ocaGroup = NoOca, ocaType = 0, parentId = 0, transmit = True\<rparr>"

definition LimitOrder :: "side \<Rightarrow> int \<Rightarrow> real \<Rightarrow> order" where
  "LimitOrder a q p =
     \<lparr>orderId = 0, action = a, orderType = LMT, totalQuantity = q, lmtPrice = Some p,
      auxPrice = None, ocaGroup = NoOca, ocaType = 0, parentId = 0, transmit = True\<rparr>"

definition StopOrder :: "side \<Rightarrow> int \<Rightarrow> real \<Rightarrow> order" where
  "StopOrder a q p =
     \<lparr>orderId = 0, action = a, orderType = STP, totalQuantity = q, lmtPrice = None,
      auxPrice = Some p, ocaGroup = NoOca, ocaType = 0, parentId = 0, transmit = True\<rparr>"

text \<open>\<open>client.getReqId()\<close>: hand out the counter and advance it.\<close>

definition getReqId :: "ib_state \<Rightarrow> nat \<times> ib_state" where
  "getReqId ib = (next_req_id ib, ib\<lparr>next_req_id := Suc (next_req_id ib)\<rparr>)"

text \<open>
  \<open>ib.placeOrder(contract, order)\<close>: an order without id gets a fresh one; an order
  whose id is already open is modified in place; otherwise a new trade is opened.
\<close>

definition placeOrder :: "ib_state \<Rightarrow> string \<Rightarrow> order \<Rightarrow> trade \<times> ib_state" where
  "placeOrder ib symbol ord =
     (if orderId ord = 0 then
        (let (i, ib1) = getReqId ib;
             t = \<lparr>contract_symbol = symbol, trade_order = ord\<lparr>orderId := i\<rparr>\<rparr>
         in (t, ib1\<lparr>open_trades := open_trades ib1 @ [t]\<rparr>))
      else
        (case filter (\<lambda>t. orderId (trade_order t) = orderId ord) (open_trades ib) of
           [] \<Rightarrow>
             (let t = \<lparr>contract_symbol = symbol, trade_order = ord\<rparr>
              in (t, ib\<lparr>open_trades := open_trades ib @ [t]\<rparr>))
         | t0 # _ \<Rightarrow>
             (t0\<lparr>trade_order := ord\<rparr>,
              ib\<lparr>open_trades :=
                   map (\<lambda>t. if orderId (trade_order t) = orderId ord
                            then t\<lparr>trade_order := ord\<rparr> else t) (open_trades ib)\<rparr>)))"

text \<open>
  \<open>ib.cancelOrder(order)\<close> inside the source's \<open>try\<close>: the order leaves the open
  trades, unless the broker raises, in which case nothing changes and the caller
  logs a warning. The flag tells whether the cancellation went through.
\<close>

definition cancelOrder :: "ib_state \<Rightarrow> order \<Rightarrow> bool \<times> ib_state" where
  "cancelOrder ib ord =
     (if orderId ord \<in> set (cancel_raises ib) then (False, ib)
      else (True, ib\<lparr>open_trades :=
                        filter (\<lambda>t. orderId (trade_order t) \<noteq> orderId ord) (open_trades ib)\<rparr>))"

section \<open>\<open>TradeExecutor\<close>\<close>

definition get_open_trades_for_symbol :: "ib_state \<Rightarrow> string \<Rightarrow> trade list" where
  "get_open_trades_for_symbol ib symbol =
     filter (\<lambda>t. contract_symbol t = symbol) (open_trades ib)"

text \<open>The loop of \<open>cancel_orders_for_symbol\<close> over the trades read at its start.\<close>

fun cancel_each :: "ib_state \<Rightarrow> trade list \<Rightarrow> nat \<times> ib_state" where
  "cancel_each ib [] = (0, ib)"
| "cancel_each ib (t # ts) =
     (let (ok, ib1) = cancelOrder ib (trade_order t);
          (n, ib2) = cancel_each ib1 ts
      in ((if ok then Suc n else n), ib2))"

definition cancel_orders_for_symbol :: "ib_state \<Rightarrow> string \<Rightarrow> nat \<times> ib_state" where
  "cancel_orders_for_symbol ib symbol = cancel_each ib (get_open_trades_for_symbol ib symbol)"

text \<open>\<open>get_position_quantity\<close>: the first position of the symbol, truncated; 0 if none.\<close>

fun get_position_quantity_in :: "(string \<times> real) list \<Rightarrow> string \<Rightarrow> int" where
  "get_position_quantity_in [] symbol = 0"
| "get_position_quantity_in ((s, q) # ps) symbol =
     (if s = symbol then py_int q else get_position_quantity_in ps symbol)"

definition get_position_quantity :: "ib_state \<Rightarrow> string \<Rightarrow> int" where
  "get_position_quantity ib symbol = get_position_quantity_in (positions ib) symbol"

text \<open>
  \<open>sell_position(contract, quantity)\<close>: returns the trade of the market sell, or
  \<open>None\<close> when nothing was placed.
\<close>

definition sell_position :: "ib_state \<Rightarrow> string \<Rightarrow> int \<Rightarrow> trade option \<times> ib_state" where
  "sell_position ib symbol quantity =
     (if quantity \<le> 0 then (None, ib)
      else
        (let actual_position = get_position_quantity ib symbol in
         if actual_position \<le> 0 then (None, ib)
         else
           (let safe_quantity = min quantity actual_position;
                (n, ib1) = cancel_orders_for_symbol ib symbol;
                sell_order = (MarketOrder SELL safe_quantity)\<lparr>transmit := True\<rparr>;
                (t, ib2) = placeOrder ib1 symbol sell_order
            in (Some t, ib2))))"

section \<open>Selling never exceeds the held quantity\<close>





section \<open>Position sizing and the bracket entry\<close>

text \<open>
  \<open>calculate_position_size(price, stop_loss_price, net_liquidation)\<close> with the
  executor's \<open>risk_per_trade\<close>; the runner always passes \<open>net_liquidation\<close>.
\<close>

definition calculate_position_size :: "real \<Rightarrow> real \<Rightarrow> real \<Rightarrow> real \<Rightarrow> int" where
  "calculate_position_size risk_per_trade price stop_loss_price net_liquidation =
     (let cash_risk = net_liquidation * risk_per_trade;
          risk_per_share = \<bar>price - stop_loss_price\<bar>
      in if risk_per_share = 0 then 0 else py_int (cash_risk / risk_per_share))"

text \<open>The take-profit child of the bracket, when a take-profit price is given.\<close>

definition tp_child :: "ib_state \<Rightarrow> nat \<Rightarrow> int \<Rightarrow> real option \<Rightarrow> order list \<times> ib_state" where
  "tp_child ib parent_id quantity take_profit_price =
     (case take_profit_price of
        None \<Rightarrow> ([], ib)
      | Some tp \<Rightarrow>
          (let (i, ib1) = getReqId ib
           in ([(LimitOrder SELL quantity tp)
                  \<lparr>orderId := i, parentId := parent_id, ocaGroup := OCA_PARENT parent_id,
                   ocaType := 1, transmit := True\<rparr>], ib1)))"

text \<open>The stop-loss child of the bracket, when a stop price is given.\<close>

definition sl_child :: "ib_state \<Rightarrow> nat \<Rightarrow> int \<Rightarrow> real option \<Rightarrow> order list \<times> ib_state" where
  "sl_child ib parent_id quantity stop_loss_price =
     (case stop_loss_price of
        None \<Rightarrow> ([], ib)
      | Some sl \<Rightarrow>
          (let (i, ib1) = getReqId ib
           in ([(StopOrder SELL quantity sl)
                  \<lparr>orderId := i, parentId := parent_id, ocaGroup := OCA_PARENT parent_id,
                   ocaType := 1, transmit := True\<rparr>], ib1)))"

fun place_children :: "ib_state \<Rightarrow> string \<Rightarrow> order list \<Rightarrow> ib_state" where
  "place_children ib symbol [] = ib"
| "place_children ib symbol (child # children) =
     place_children (snd (placeOrder ib symbol child)) symbol children"

text \<open>
  \<open>execute_buy_order(contract, quantity, stop_loss_price, take_profit_price)\<close>: the
  parent market BUY is transmitted first, then the exits are attached by
  \<open>parentId\<close> in one OCA group named after the parent.
\<close>

definition execute_buy_order ::
  "ib_state \<Rightarrow> string \<Rightarrow> int \<Rightarrow> real option \<Rightarrow> real option \<Rightarrow> trade option \<times> ib_state" where
  "execute_buy_order ib symbol quantity stop_loss_price take_profit_price =
     (if quantity \<le> 0 then (None, ib)
      else if stop_loss_price = None \<and> take_profit_price = None then
        (let (t, ib1) = placeOrder ib symbol (MarketOrder BUY quantity) in (Some t, ib1))
      else
        (let (parent_id, ib1) = getReqId ib;
             parent_order = (MarketOrder BUY quantity)\<lparr>orderId := parent_id, transmit := True\<rparr>;
             (tps, ib2) = tp_child ib1 parent_id quantity take_profit_price;
             (sls, ib3) = sl_child ib2 parent_id quantity stop_loss_price;
             children = tps @ sls;
             (t, ib4) = placeOrder ib3 symbol parent_order;
             ib5 = place_children ib4 symbol children
         in (Some t, ib5)))"

section \<open>The runner: cash budgets\<close>

text \<open>
  One line of the broker's account summary. The value is a string in the source;
  \<open>None\<close> stands for one that \<open>float\<close> cannot parse.
\<close>

record account_value =
  av_tag :: string
  av_currency :: string
  av_value :: "real option"

text \<open>The first line satisfying \<open>P\<close> whose value parses (the source's \<open>for\<close> / \<open>try\<close>).\<close>

fun first_parsed :: "(account_value \<Rightarrow> bool) \<Rightarrow> account_value list \<Rightarrow> real option" where
  "first_parsed P [] = None"
| "first_parsed P (v # vs) =
     (if P v then (case av_value v of Some x \<Rightarrow> Some x | None \<Rightarrow> first_parsed P vs)
      else first_parsed P vs)"

fun or_else :: "'a option \<Rightarrow> 'a option \<Rightarrow> 'a option" where
  "or_else (Some x) y = Some x"
| "or_else None y = y"

definition get_account_value ::
  "account_value list \<Rightarrow> string \<Rightarrow> string option \<Rightarrow> real option" where
  "get_account_value account_values tag currency =
     (let matches = filter (\<lambda>v. av_tag v = tag) account_values in
      if matches = [] then None
      else
        (case currency of
           None \<Rightarrow>
             or_else (first_parsed (\<lambda>v. av_currency v = ''BASE'') matches)
            (or_else (first_parsed (\<lambda>v. av_currency v = ''USD'') matches)
            (or_else (first_parsed (\<lambda>v. av_currency v = ''GBP'') matches)
                     (first_parsed (\<lambda>v. True) matches)))
         | Some cur \<Rightarrow>
             or_else (first_parsed (\<lambda>v. av_currency v = cur) matches)
            (or_else (first_parsed (\<lambda>v. av_currency v = ''BASE'' \<or> av_currency v = []) matches)
                     (if tag = ''TotalCashValue''
                      then first_parsed
                             (\<lambda>v. av_tag v = ''CashBalance'' \<and> av_currency v = cur) account_values
                      else None))))"

text \<open>
  The budget of one currency (the body of the loop over \<open>currencies\<close>). The reserve
  map is \<open>trading.min_cash_reserve_by_currency\<close>; a missing entry counts as 0.
\<close>

definition currency_budget ::
  "account_value list \<Rightarrow> string \<Rightarrow> real \<Rightarrow> (string \<Rightarrow> real option) \<Rightarrow> string \<Rightarrow> real" where
  "currency_budget acc_summary cash_budget_tag max_cash_utilisation min_cash_reserve cur =
     (case get_account_value acc_summary cash_budget_tag (Some cur) of
        None \<Rightarrow> 0
      | Some available \<Rightarrow>
          (let reserve = (case min_cash_reserve cur of None \<Rightarrow> 0 | Some r \<Rightarrow> r);
               cap_by_util = available * max_cash_utilisation;
               cap_by_reserve = available - reserve
           in max 0 (min cap_by_util cap_by_reserve)))"

fun cash_budgets ::
  "account_value list \<Rightarrow> string \<Rightarrow> real \<Rightarrow> (string \<Rightarrow> real option) \<Rightarrow>
   (string \<Rightarrow> real option) \<Rightarrow> string list \<Rightarrow> (string \<Rightarrow> real option)" where
  "cash_budgets acc tag util reserves budgets [] = budgets"
| "cash_budgets acc tag util reserves budgets (cur # currencies) =
     cash_budgets acc tag util reserves
       (budgets(cur \<mapsto> currency_budget acc tag util reserves cur)) currencies"

text \<open>\<open>budget_remaining.get(cur, 0.0)\<close>.\<close>

definition budget_get :: "(string \<Rightarrow> real option) \<Rightarrow> string \<Rightarrow> real" where
  "budget_get budget cur = (case budget cur of None \<Rightarrow> 0 | Some x \<Rightarrow> x)"

section \<open>The runner: selection and execution\<close>

datatype decision = REJECTED | SHORTLISTED | TRADE

text \<open>
  The reasons the runner writes, one constructor per message of the source:
  \<^item> \<open>Uninitialised\<close>, \<open>No_market_data\<close>;
  \<^item> \<open>AI_shortlist\<close> and \<open>AI_skip\<close>: "label: SHORTLIST (conf c) - rationale" and
    "label: SKIP (conf c) - rationale", with the AI label, confidence and rationale;
  \<^item> \<open>Market_closed r\<close>: "Market closed: " followed by the earlier reason;
  \<^item> \<open>Too_close_to_close\<close>: "Too close to market close (no new entries)";
  \<^item> \<open>Already_holding\<close>: "Already holding a position";
  \<^item> \<open>No_cash_budget cur\<close>: "No available cash budget for cur";
  \<^item> \<open>Symbol_timed_out\<close>, \<open>Timeout_during_analysis\<close>, \<open>Connection_error\<close>,
    \<open>Error_during_analysis\<close>: the four exception handlers, with the exception's text;
  \<^item> \<open>Not_selected\<close>: "Shortlisted; not selected this cycle";
  \<^item> \<open>ATR_missing\<close>, \<open>Stop_not_positive\<close>, \<open>Net_liquidation_missing\<close>,
    \<open>Insufficient_budget cur\<close>, \<open>Order_placement_failed\<close>: "Selected by AI but ...";
  \<^item> \<open>Order_placed\<close>: "Order placed (status)".
\<close>

datatype reason =
    Uninitialised
  | No_market_data
  | AI_shortlist string real string
  | AI_skip string real string
  | Market_closed reason
  | Too_close_to_close
  | Already_holding
  | No_cash_budget string
  | Symbol_timed_out string
  | Timeout_during_analysis string
  | Connection_error string
  | Error_during_analysis string string
  | Not_selected
  | ATR_missing
  | Stop_not_positive
  | Net_liquidation_missing
  | Insufficient_budget string
  | Order_placement_failed
  | Order_placed

text \<open>An eligible candidate, with the fields the selection loop reads.\<close>

record eligible_candidate =
  ec_symbol :: string
  ec_currency :: string
  ec_price :: real
  ec_atr :: "real option"
  ec_research_id :: nat
  ec_rank :: nat

text \<open>A call of \<open>update_research_decision(research_id, decision, reason, rank)\<close>.\<close>

record research_update =
  ru_research_id :: nat
  ru_decision :: decision
  ru_reason :: reason
  ru_rank :: nat

text \<open>
  A buy that went through: the contract's symbol and currency and the arguments of
  \<open>execute_buy_order\<close> and \<open>record_trade\<close>.
\<close>

record placed_buy =
  pb_symbol :: string
  pb_currency :: string
  pb_quantity :: int
  pb_price :: real
  pb_stop_loss :: real
  pb_take_profit :: real

record buy_config =
  max_new :: int
  stop_atr_multiplier :: real
  take_profit_r :: real
  risk_per_trade :: real

record buy_state =
  bs_ib :: ib_state
  budget_remaining :: "string \<Rightarrow> real option"
  selected :: "string list"
  buys_placed :: "placed_buy list"
  research_updates :: "research_update list"

datatype py_exception = ZeroDivisionError

definition keep_shortlisted :: "buy_state \<Rightarrow> eligible_candidate \<Rightarrow> reason \<Rightarrow> buy_state" where
  "keep_shortlisted st cand why =
     st\<lparr>research_updates := research_updates st @
          [\<lparr>ru_research_id = ec_research_id cand, ru_decision = SHORTLISTED,
            ru_reason = why, ru_rank = ec_rank cand\<rparr>]\<rparr>"

text \<open>
  The body of the loop over \<open>desired\<close> for a candidate that was found. An exception
  that escapes the body is returned with the state reached.
\<close>

definition buy_one ::
  "buy_config \<Rightarrow> real option \<Rightarrow> buy_state \<Rightarrow> eligible_candidate \<Rightarrow>
   py_exception option \<times> buy_state" where
  "buy_one cfg net_liq st cand =
     (let cur = ec_currency cand; price = ec_price cand in
      case ec_atr cand of
        None \<Rightarrow> (None, keep_shortlisted st cand ATR_missing)
      | Some atr \<Rightarrow>
          (let stop_loss = price - stop_atr_multiplier cfg * atr in
           if stop_loss \<le> 0 then (None, keep_shortlisted st cand Stop_not_positive)
           else
             (case net_liq of
                None \<Rightarrow> (None, keep_shortlisted st cand Net_liquidation_missing)
              | Some nl \<Rightarrow>
                  (let qty_risk = calculate_position_size (risk_per_trade cfg) price stop_loss nl in
                   case py_floordiv (budget_get (budget_remaining st) cur) price of
                     None \<Rightarrow> (Some ZeroDivisionError, st)
                   | Some fd \<Rightarrow>
                       (let max_affordable = py_int fd;
                            quantity = min qty_risk max_affordable
                        in if quantity \<le> 0
                           then (None, keep_shortlisted st cand (Insufficient_budget cur))
                           else
                             (let take_profit = price + take_profit_r cfg * (price - stop_loss);
                                  (tr, ib1) = execute_buy_order (bs_ib st) (ec_symbol cand) quantity
                                                (Some stop_loss) (Some take_profit)
                              in case tr of
                                   None \<Rightarrow>
                                     (None, keep_shortlisted (st\<lparr>bs_ib := ib1\<rparr>) cand
                                              Order_placement_failed)
                                 | Some t \<Rightarrow>
                                     (None,
                                      st\<lparr>bs_ib := ib1,
                                         buys_placed := buys_placed st @
                                           [\<lparr>pb_symbol = ec_symbol cand, pb_currency = cur,
                                             pb_quantity = quantity, pb_price = price,
                                             pb_stop_loss = stop_loss,
                                             pb_take_profit = take_profit\<rparr>],
                                         budget_remaining := (budget_remaining st)
                                           (cur \<mapsto> max 0 (budget_get (budget_remaining st) cur
                                                          - of_int quantity * price)),
                                         selected := selected st @ [ec_symbol cand],
                                         research_updates := research_updates st @
                                           [\<lparr>ru_research_id = ec_research_id cand,
                                             ru_decision = TRADE, ru_reason = Order_placed,
                                             ru_rank = ec_rank cand\<rparr>]\<rparr>)))))))"

text \<open>\<open>str.upper()\<close> on ASCII letters.\<close>

definition upper_char :: "char \<Rightarrow> char" where
  "upper_char c =
     (let n = (of_char c :: nat) in if 97 \<le> n \<and> n \<le> 122 then char_of (n - 32) else c)"

definition upper :: "string \<Rightarrow> string" where
  "upper s = map upper_char s"

text \<open>
  \<open>cand_by_symbol\<close>: the dict comprehension keyed by upper-cased symbol, a later
  candidate replacing an earlier one with the same key.
\<close>

fun cand_by_symbol :: "eligible_candidate list \<Rightarrow> string \<Rightarrow> eligible_candidate option" where
  "cand_by_symbol [] key = None"
| "cand_by_symbol (c # cs) key =
     (case cand_by_symbol cs key of
        Some c' \<Rightarrow> Some c'
      | None \<Rightarrow> (if upper (ec_symbol c) = key then Some c else None))"

text \<open>The loop over \<open>desired\<close>, the symbols returned by the selection, in their order.\<close>

fun buy_loop ::
  "buy_config \<Rightarrow> real option \<Rightarrow> eligible_candidate list \<Rightarrow> buy_state \<Rightarrow> string list \<Rightarrow>
   py_exception option \<times> buy_state" where
  "buy_loop cfg net_liq eligible st [] = (None, st)"
| "buy_loop cfg net_liq eligible st (s # desired) =
     (if max_new cfg \<le> int (length (selected st)) then (None, st)
      else
        (case cand_by_symbol eligible (upper s) of
           None \<Rightarrow> buy_loop cfg net_liq eligible st desired
         | Some cand \<Rightarrow>
             (case buy_one cfg net_liq st cand of
                (Some e, st1) \<Rightarrow> (Some e, st1)
              | (None, st1) \<Rightarrow> buy_loop cfg net_liq eligible st1 desired)))"

text \<open>The buy notional placed in one currency.\<close>

definition notional_in :: "string \<Rightarrow> placed_buy list \<Rightarrow> real" where
  "notional_in cur buys =
     sum_list (map (\<lambda>b. of_int (pb_quantity b) * pb_price b)
                   (filter (\<lambda>b. pb_currency b = cur) buys))"

section \<open>Sizing and the budget of a cycle\<close>

lemma py_int_nonneg: "0 \<le> x \<Longrightarrow> py_int x = \<lfloor>x\<rfloor>"
  by (simp add: py_int_def)

lemma py_int_of_int: "py_int (of_int n) = n"
  by (simp add: py_int_def)

lemma py_int_neg: "x < 0 \<Longrightarrow> py_int x \<le> 0 \<and> \<lfloor>x\<rfloor> \<le> 0"
proof -
  assume x: "x < 0"
  have "\<lceil>x\<rceil> \<le> 0" using x by (simp add: ceiling_le_iff)
  moreover have "\<lfloor>x\<rfloor> \<le> 0" using x by (simp add: floor_le_iff)
  ultimately show ?thesis using x by (simp add: py_int_def)
qed

lemma min_py_int_floor:
  "(0 < min (py_int x) m \<longleftrightarrow> 0 < min \<lfloor>x\<rfloor> m) \<and>
   (0 < min \<lfloor>x\<rfloor> m \<longrightarrow> min (py_int x) m = min \<lfloor>x\<rfloor> m)"
proof (cases "0 \<le> x")
  case True
  then show ?thesis by (simp add: py_int_nonneg)
next
  case False
  then have "py_int x \<le> 0 \<and> \<lfloor>x\<rfloor> \<le> 0" using py_int_neg [of x] by simp
  then show ?thesis by auto
qed

lemma execute_buy_order_bracket:
  "0 < quantity \<Longrightarrow>
   \<exists>t ib1. execute_buy_order ib symbol quantity (Some sl) (Some tp) = (Some t, ib1)"
  by (simp add: execute_buy_order_def Let_def split: prod.splits)

text \<open>
  On a session whose request-id counter is positive and above every open order id,
  the bracket entry opens three trades, in this order: the parent market BUY, the
  take-profit SELL LMT and the stop SELL STP, the two exits carrying the parent's
  id and one OCA group.
\<close>

lemma execute_buy_order_bracket_trades:
  assumes q: "0 < quantity"
    and n: "0 < next_req_id ib"
    and fresh: "\<forall>t\<in>set (open_trades ib). orderId (trade_order t) < next_req_id ib"
  shows "execute_buy_order ib symbol quantity (Some sl) (Some tp) =
     (Some \<lparr>contract_symbol = symbol,
            trade_order = (MarketOrder BUY quantity)\<lparr>orderId := next_req_id ib\<rparr>\<rparr>,
      ib\<lparr>open_trades := open_trades ib @
           [\<lparr>contract_symbol = symbol,
             trade_order = (MarketOrder BUY quantity)\<lparr>orderId := next_req_id ib\<rparr>\<rparr>,
            \<lparr>contract_symbol = symbol,
             trade_order = (LimitOrder SELL quantity tp)
               \<lparr>orderId := next_req_id ib + 1, parentId := next_req_id ib,
                ocaGroup := OCA_PARENT (next_req_id ib), ocaType := 1\<rparr>\<rparr>,
            \<lparr>contract_symbol = symbol,
             trade_order = (StopOrder SELL quantity sl)
               \<lparr>orderId := next_req_id ib + 2, parentId := next_req_id ib,
                ocaGroup := OCA_PARENT (next_req_id ib), ocaType := 1\<rparr>\<rparr>],
         next_req_id := next_req_id ib + 3\<rparr>)"
proof -
  have none: "filter (\<lambda>t. orderId (trade_order t) = next_req_id ib + k) (open_trades ib) = []"
    for k
    using fresh by (auto simp: filter_empty_conv)
  have none0: "filter (\<lambda>t. orderId (trade_order t) = next_req_id ib) (open_trades ib) = []"
    using none [of 0] by simp
  have none1: "filter (\<lambda>t. orderId (trade_order t) = Suc (next_req_id ib)) (open_trades ib) = []"
    using none [of 1] by simp
  have none2: "filter (\<lambda>t. orderId (trade_order t) = Suc (Suc (next_req_id ib))) (open_trades ib) = []"
    using none [of 2] by simp
  show ?thesis
    using q n
    by (simp add: execute_buy_order_def tp_child_def sl_child_def getReqId_def placeOrder_def
          Let_def MarketOrder_def LimitOrder_def StopOrder_def none0 none1 none2)
qed

lemma buy_one_sized:
  assumes atr: "ec_atr cand = Some atr"
    and nl: "net_liq = Some equity"
    and s: "s = ec_price cand - stop_atr_multiplier cfg * atr"
    and s_pos: "0 < s" and s_lt: "s < ec_price cand"
    and q: "q = min \<lfloor>equity * risk_per_trade cfg / \<bar>ec_price cand - s\<bar>\<rfloor>
                    \<lfloor>budget_get (budget_remaining st) (ec_currency cand) / ec_price cand\<rfloor>"
  shows "(0 < q \<longrightarrow>
            buy_one cfg net_liq st cand =
              (None,
               st\<lparr>bs_ib := snd (execute_buy_order (bs_ib st) (ec_symbol cand) q (Some s)
                            (Some (ec_price cand + take_profit_r cfg * (ec_price cand - s)))),
                  buys_placed := buys_placed st @
                    [\<lparr>pb_symbol = ec_symbol cand, pb_currency = ec_currency cand,
                      pb_quantity = q, pb_price = ec_price cand, pb_stop_loss = s,
                      pb_take_profit = ec_price cand + take_profit_r cfg * (ec_price cand - s)\<rparr>],
                  budget_remaining := (budget_remaining st)
                    (ec_currency cand \<mapsto>
                       max 0 (budget_get (budget_remaining st) (ec_currency cand)
                              - of_int q * ec_price cand)),
                  selected := selected st @ [ec_symbol cand],
                  research_updates := research_updates st @
                    [\<lparr>ru_research_id = ec_research_id cand, ru_decision = TRADE,
                      ru_reason = Order_placed, ru_rank = ec_rank cand\<rparr>]\<rparr>)) \<and>
         (q \<le> 0 \<longrightarrow>
            buy_one cfg net_liq st cand =
              (None,
               st\<lparr>research_updates := research_updates st @
                    [\<lparr>ru_research_id = ec_research_id cand, ru_decision = SHORTLISTED,
                      ru_reason = Insufficient_budget (ec_currency cand),
                      ru_rank = ec_rank cand\<rparr>]\<rparr>))"
proof -
  let ?p = "ec_price cand"
  let ?B = "budget_get (budget_remaining st) (ec_currency cand)"
  let ?x = "equity * risk_per_trade cfg / \<bar>?p - s\<bar>"
  let ?tp = "?p + take_profit_r cfg * (?p - s)"
  have p_pos: "0 < ?p" using s_pos s_lt by simp
  have fd: "py_floordiv ?B ?p = Some (of_int \<lfloor>?B / ?p\<rfloor>)"
    using p_pos by (simp add: py_floordiv_def)
  have cps: "calculate_position_size (risk_per_trade cfg) ?p s equity = py_int ?x"
    using s_lt by (simp add: calculate_position_size_def Let_def)
  define qq where "qq = min (py_int ?x) \<lfloor>?B / ?p\<rfloor>"
  have rel: "(0 < qq \<longleftrightarrow> 0 < q) \<and> (0 < q \<longrightarrow> qq = q)"
    using min_py_int_floor [of ?x "\<lfloor>?B / ?p\<rfloor>"] q unfolding qq_def by simp
  have s_not: "(s \<le> 0) = False" using s_pos by simp
  show ?thesis
  proof (intro conjI impI)
    assume qpos: "0 < q"
    then have "qq = q" using rel by blast
    then have qq: "min (py_int ?x) \<lfloor>?B / ?p\<rfloor> = q" unfolding qq_def .
    have qpos': "(q \<le> 0) = False" using qpos by simp
    obtain t ib1 where ex: "execute_buy_order (bs_ib st) (ec_symbol cand) q (Some s)
        (Some ?tp) = (Some t, ib1)"
      using execute_buy_order_bracket [OF qpos] by blast
    have sn: "snd (execute_buy_order (bs_ib st) (ec_symbol cand) q (Some s) (Some ?tp)) = ib1"
      by (simp add: ex)
    show "buy_one cfg net_liq st cand =
              (None,
               st\<lparr>bs_ib := snd (execute_buy_order (bs_ib st) (ec_symbol cand) q (Some s)
                            (Some (ec_price cand + take_profit_r cfg * (ec_price cand - s)))),
                  buys_placed := buys_placed st @
                    [\<lparr>pb_symbol = ec_symbol cand, pb_currency = ec_currency cand,
                      pb_quantity = q, pb_price = ec_price cand, pb_stop_loss = s,
                      pb_take_profit = ec_price cand + take_profit_r cfg * (ec_price cand - s)\<rparr>],
                  budget_remaining := (budget_remaining st)
                    (ec_currency cand \<mapsto>
                       max 0 (budget_get (budget_remaining st) (ec_currency cand)
                              - of_int q * ec_price cand)),
                  selected := selected st @ [ec_symbol cand],
                  research_updates := research_updates st @
                    [\<lparr>ru_research_id = ec_research_id cand, ru_decision = TRADE,
                      ru_reason = Order_placed, ru_rank = ec_rank cand\<rparr>]\<rparr>)"
      unfolding buy_one_def Let_def
      by (simp only: atr nl s [symmetric] cps fd py_int_of_int qq ex qpos' s_not
            option.case prod.case if_False snd_conv)
  next
    assume "q \<le> 0"
    then have "\<not> 0 < qq" using rel by auto
    then have "qq \<le> 0" by simp
    then have qq: "(min (py_int ?x) \<lfloor>?B / ?p\<rfloor> \<le> 0) = True"
      unfolding qq_def by (rule eqTrueI)
    show "buy_one cfg net_liq st cand =
              (None,
               st\<lparr>research_updates := research_updates st @
                    [\<lparr>ru_research_id = ec_research_id cand, ru_decision = SHORTLISTED,
                      ru_reason = Insufficient_budget (ec_currency cand),
                      ru_rank = ec_rank cand\<rparr>]\<rparr>)"
      unfolding buy_one_def Let_def keep_shortlisted_def
      by (simp only: atr nl s [symmetric] cps fd py_int_of_int qq s_not
            option.case prod.case if_False if_True)
  qed
qed

text \<open>
  C8. For a selected candidate with price \<open>p\<close> and stop \<open>0 < s < p\<close> the quantity is
  \<open>q = min \<lfloor>equity * riskPerTrade / \<bar>p - s\<bar>\<rfloor> \<lfloor>remainingBudget / p\<rfloor>\<close>. When \<open>q > 0\<close>
  the bracket is placed for exactly \<open>q\<close> shares, the buy is recorded with that
  quantity and the research row becomes TRADE. When \<open>q \<le> 0\<close> nothing is placed and
  the research row of the candidate is updated to SHORTLISTED with the reason
  "Selected by AI but insufficient cur budget for position sizing": the candidate is
  not skipped silently. The sizing function returns the floor whenever the cash at
  risk is not negative, and 500 shares for equity 100,000, risk 0.01, price 50 and
  stop 48. On a session with fresh order ids the bracket for \<open>q\<close> shares opens the
  parent BUY and the two exits, each for \<open>q\<close> shares.
\<close>

theorem position_size_and_budget_cap:
  "calculate_position_size (1 / 100) 50 48 100000 = 500 \<and>
   (0 < s \<and> s < p \<and> 0 \<le> equity * risk \<longrightarrow>
      calculate_position_size risk p s equity = \<lfloor>equity * risk / \<bar>p - s\<bar>\<rfloor>) \<and>
   (ec_atr cand = Some atr \<and> net_liq = Some equity \<and>
    s = ec_price cand - stop_atr_multiplier cfg * atr \<and> 0 < s \<and> s < ec_price cand \<and>
    q = min \<lfloor>equity * risk_per_trade cfg / \<bar>ec_price cand - s\<bar>\<rfloor>
            \<lfloor>budget_get (budget_remaining st) (ec_currency cand) / ec_price cand\<rfloor> \<longrightarrow>
      (0 < q \<longrightarrow>
         buy_one cfg net_liq st cand =
            (None,
             st\<lparr>bs_ib := snd (execute_buy_order (bs_ib st) (ec_symbol cand) q (Some s)
                          (Some (ec_price cand + take_profit_r cfg * (ec_price cand - s)))),
                buys_placed := buys_placed st @
                  [\<lparr>pb_symbol = ec_symbol cand, pb_currency = ec_currency cand,
                    pb_quantity = q, pb_price = ec_price cand, pb_stop_loss = s,
                    pb_take_profit = ec_price cand + take_profit_r cfg * (ec_price cand - s)\<rparr>],
                budget_remaining := (budget_remaining st)
                  (ec_currency cand \<mapsto>
                     max 0 (budget_get (budget_remaining st) (ec_currency cand)
                            - of_int q * ec_price cand)),
                selected := selected st @ [ec_symbol cand],
                research_updates := research_updates st @
                  [\<lparr>ru_research_id = ec_research_id cand, ru_decision = TRADE,
                    ru_reason = Order_placed, ru_rank = ec_rank cand\<rparr>]\<rparr>)) \<and>
      (q \<le> 0 \<longrightarrow>
         buy_one cfg net_liq st cand =
           (None,
            st\<lparr>research_updates := research_updates st @
                 [\<lparr>ru_research_id = ec_research_id cand, ru_decision = SHORTLISTED,
                   ru_reason = Insufficient_budget (ec_currency cand),
                   ru_rank = ec_rank cand\<rparr>]\<rparr>))) \<and>
   (0 < q \<and> 0 < next_req_id ib \<and>
    (\<forall>t\<in>set (open_trades ib). orderId (trade_order t) < next_req_id ib) \<longrightarrow>
      execute_buy_order ib symbol q (Some sl) (Some tp) =
        (Some \<lparr>contract_symbol = symbol,
               trade_order = (MarketOrder BUY q)\<lparr>orderId := next_req_id ib\<rparr>\<rparr>,
         ib\<lparr>open_trades := open_trades ib @
              [\<lparr>contract_symbol = symbol,
                trade_order = (MarketOrder BUY q)\<lparr>orderId := next_req_id ib\<rparr>\<rparr>,
               \<lparr>contract_symbol = symbol,
                trade_order = (LimitOrder SELL q tp)
                  \<lparr>orderId := next_req_id ib + 1, parentId := next_req_id ib,
                   ocaGroup := OCA_PARENT (next_req_id ib), ocaType := 1\<rparr>\<rparr>,
               \<lparr>contract_symbol = symbol,
                trade_order = (StopOrder SELL q sl)
                  \<lparr>orderId := next_req_id ib + 2, parentId := next_req_id ib,
                   ocaGroup := OCA_PARENT (next_req_id ib), ocaType := 1\<rparr>\<rparr>],
            next_req_id := next_req_id ib + 3\<rparr>))"
proof (intro conjI impI)
  show "calculate_position_size (1 / 100) 50 48 100000 = 500"
    by (simp add: calculate_position_size_def py_int_def)
next
  assume "0 < s \<and> s < p \<and> 0 \<le> equity * risk"
  then show "calculate_position_size risk p s equity = \<lfloor>equity * risk / \<bar>p - s\<bar>\<rfloor>"
    by (simp add: calculate_position_size_def py_int_nonneg)
next
  assume h: "ec_atr cand = Some atr \<and> net_liq = Some equity \<and>
    s = ec_price cand - stop_atr_multiplier cfg * atr \<and> 0 < s \<and> s < ec_price cand \<and>
    q = min \<lfloor>equity * risk_per_trade cfg / \<bar>ec_price cand - s\<bar>\<rfloor>
            \<lfloor>budget_get (budget_remaining st) (ec_currency cand) / ec_price cand\<rfloor>"
  assume "0 < q"
  with h show "buy_one cfg net_liq st cand =
            (None,
             st\<lparr>bs_ib := snd (execute_buy_order (bs_ib st) (ec_symbol cand) q (Some s)
                          (Some (ec_price cand + take_profit_r cfg * (ec_price cand - s)))),
                buys_placed := buys_placed st @
                  [\<lparr>pb_symbol = ec_symbol cand, pb_currency = ec_currency cand,
                    pb_quantity = q, pb_price = ec_price cand, pb_stop_loss = s,
                    pb_take_profit = ec_price cand + take_profit_r cfg * (ec_price cand - s)\<rparr>],
                budget_remaining := (budget_remaining st)
                  (ec_currency cand \<mapsto>
                     max 0 (budget_get (budget_remaining st) (ec_currency cand)
                            - of_int q * ec_price cand)),
                selected := selected st @ [ec_symbol cand],
                research_updates := research_updates st @
                  [\<lparr>ru_research_id = ec_research_id cand, ru_decision = TRADE,
                    ru_reason = Order_placed, ru_rank = ec_rank cand\<rparr>]\<rparr>)"
    using buy_one_sized [of cand atr net_liq equity s cfg q st] by blast
next
  assume h: "ec_atr cand = Some atr \<and> net_liq = Some equity \<and>
    s = ec_price cand - stop_atr_multiplier cfg * atr \<and> 0 < s \<and> s < ec_price cand \<and>
    q = min \<lfloor>equity * risk_per_trade cfg / \<bar>ec_price cand - s\<bar>\<rfloor>
            \<lfloor>budget_get (budget_remaining st) (ec_currency cand) / ec_price cand\<rfloor>"
  assume "q \<le> 0"
  with h show "buy_one cfg net_liq st cand =
           (None,
            st\<lparr>research_updates := research_updates st @
                 [\<lparr>ru_research_id = ec_research_id cand, ru_decision = SHORTLISTED,
                   ru_reason = Insufficient_budget (ec_currency cand),
                   ru_rank = ec_rank cand\<rparr>]\<rparr>)"
    using buy_one_sized [of cand atr net_liq equity s cfg q st] by blast
next
  assume "0 < q \<and> 0 < next_req_id ib \<and>
    (\<forall>t\<in>set (open_trades ib). orderId (trade_order t) < next_req_id ib)"
  then show "execute_buy_order ib symbol q (Some sl) (Some tp) =
        (Some \<lparr>contract_symbol = symbol,
               trade_order = (MarketOrder BUY q)\<lparr>orderId := next_req_id ib\<rparr>\<rparr>,
         ib\<lparr>open_trades := open_trades ib @
              [\<lparr>contract_symbol = symbol,
                trade_order = (MarketOrder BUY q)\<lparr>orderId := next_req_id ib\<rparr>\<rparr>,
               \<lparr>contract_symbol = symbol,
                trade_order = (LimitOrder SELL q tp)
                  \<lparr>orderId := next_req_id ib + 1, parentId := next_req_id ib,
                   ocaGroup := OCA_PARENT (next_req_id ib), ocaType := 1\<rparr>\<rparr>,
               \<lparr>contract_symbol = symbol,
                trade_order = (StopOrder SELL q sl)
                  \<lparr>orderId := next_req_id ib + 2, parentId := next_req_id ib,
                   ocaGroup := OCA_PARENT (next_req_id ib), ocaType := 1\<rparr>\<rparr>],
            next_req_id := next_req_id ib + 3\<rparr>)"
    using execute_buy_order_bracket_trades [of q ib symbol sl tp] by blast
qed

definition demo_cfg :: buy_config where
  "demo_cfg = \<lparr>max_new = 2, stop_atr_multiplier = 2, take_profit_r = 1, risk_per_trade = 1 / 100\<rparr>"

definition demo_cand :: eligible_candidate where
  "demo_cand =
     \<lparr>ec_symbol = ''ACME'', ec_currency = ''USD'', ec_price = 50, ec_atr = Some 1,
      ec_research_id = 1, ec_rank = 1\<rparr>"

definition demo_summary :: "account_value list" where
  "demo_summary =
     [\<lparr>av_tag = ''NetLiquidation'', av_currency = ''BASE'', av_value = Some 100000\<rparr>,
      \<lparr>av_tag = ''TotalCashValue'', av_currency = ''USD'', av_value = Some 10000\<rparr>]"

definition demo_ib :: ib_state where
  "demo_ib = \<lparr>open_trades = [], positions = [], next_req_id = 1, cancel_raises = []\<rparr>"

definition demo_start :: buy_state where
  "demo_start =
     \<lparr>bs_ib = demo_ib,
      budget_remaining =
        cash_budgets demo_summary ''TotalCashValue'' (8 / 10) Map.empty Map.empty [''USD''],
      selected = [], buys_placed = [], research_updates = []\<rparr>"

lemma demo_start_budget: "budget_get (budget_remaining demo_start) ''USD'' = 8000"
  by (simp add: demo_start_def currency_budget_def get_account_value_def demo_summary_def
        budget_get_def)

definition demo_broke :: buy_state where
  "demo_broke = demo_start\<lparr>budget_remaining := Map.empty\<rparr>"

theorem position_size_and_budget_cap_witness:
  "buys_placed (snd (buy_one demo_cfg (Some 100000) demo_start demo_cand)) =
     [\<lparr>pb_symbol = ''ACME'', pb_currency = ''USD'', pb_quantity = 160, pb_price = 50,
       pb_stop_loss = 48, pb_take_profit = 52\<rparr>] \<and>
   open_trades (bs_ib (snd (buy_one demo_cfg (Some 100000) demo_start demo_cand))) =
     [\<lparr>contract_symbol = ''ACME'', trade_order = (MarketOrder BUY 160)\<lparr>orderId := 1\<rparr>\<rparr>,
      \<lparr>contract_symbol = ''ACME'',
       trade_order = (LimitOrder SELL 160 52)
         \<lparr>orderId := 2, parentId := 1, ocaGroup := OCA_PARENT 1, ocaType := 1\<rparr>\<rparr>,
      \<lparr>contract_symbol = ''ACME'',
       trade_order = (StopOrder SELL 160 48)
         \<lparr>orderId := 3, parentId := 1, ocaGroup := OCA_PARENT 1, ocaType := 1\<rparr>\<rparr>] \<and>
   research_updates (snd (buy_one demo_cfg (Some 100000) demo_start demo_cand)) =
     [\<lparr>ru_research_id = 1, ru_decision = TRADE, ru_reason = Order_placed, ru_rank = 1\<rparr>] \<and>
   fst (buy_one demo_cfg (Some 100000) demo_broke demo_cand) = None \<and>
   buys_placed (snd (buy_one demo_cfg (Some 100000) demo_broke demo_cand)) = [] \<and>
   open_trades (bs_ib (snd (buy_one demo_cfg (Some 100000) demo_broke demo_cand))) = [] \<and>
   research_updates (snd (buy_one demo_cfg (Some 100000) demo_broke demo_cand)) =
     [\<lparr>ru_research_id = 1, ru_decision = SHORTLISTED, ru_reason = Insufficient_budget ''USD'',
       ru_rank = 1\<rparr>]"
proof -
  have h1: "ec_atr demo_cand = Some 1 \<and> Some (100000::real) = Some 100000 \<and>
      (48::real) = ec_price demo_cand - stop_atr_multiplier demo_cfg * 1 \<and> (0::real) < 48 \<and>
      48 < ec_price demo_cand \<and>
      (160::int) = min \<lfloor>100000 * risk_per_trade demo_cfg / \<bar>ec_price demo_cand - 48\<bar>\<rfloor>
        \<lfloor>budget_get (budget_remaining demo_start) (ec_currency demo_cand) / ec_price demo_cand\<rfloor>"
    using demo_start_budget by (simp add: demo_cfg_def demo_cand_def)
  have h0: "ec_atr demo_cand = Some 1 \<and> Some (100000::real) = Some 100000 \<and>
      (48::real) = ec_price demo_cand - stop_atr_multiplier demo_cfg * 1 \<and> (0::real) < 48 \<and>
      48 < ec_price demo_cand \<and>
      (0::int) = min \<lfloor>100000 * risk_per_trade demo_cfg / \<bar>ec_price demo_cand - 48\<bar>\<rfloor>
        \<lfloor>budget_get (budget_remaining demo_broke) (ec_currency demo_cand) / ec_price demo_cand\<rfloor>"
    by (simp add: demo_cfg_def demo_cand_def demo_broke_def budget_get_def)
  have pos: "(0::int) < 160" and zero: "(0::int) \<le> 0" by simp_all
  have wf: "(0::int) < 160 \<and> 0 < next_req_id demo_ib \<and>
      (\<forall>t\<in>set (open_trades demo_ib). orderId (trade_order t) < next_req_id demo_ib)"
    by (simp add: demo_ib_def)
  note placed = position_size_and_budget_cap
      [where s = 48 and cand = demo_cand and atr = 1 and net_liq = "Some 100000"
         and equity = 100000 and cfg = demo_cfg and q = 160 and st = demo_start,
       THEN conjunct2, THEN conjunct2, THEN conjunct1, THEN mp, OF h1, THEN conjunct1,
       THEN mp, OF pos]
  note bracket = position_size_and_budget_cap
      [where q = 160 and ib = demo_ib and symbol = "''ACME''" and sl = 48 and tp = 52,
       THEN conjunct2, THEN conjunct2, THEN conjunct2, THEN mp, OF wf]
  note rejected = position_size_and_budget_cap
      [where s = 48 and cand = demo_cand and atr = 1 and net_liq = "Some 100000"
         and equity = 100000 and cfg = demo_cfg and q = 0 and st = demo_broke,
       THEN conjunct2, THEN conjunct2, THEN conjunct1, THEN mp, OF h0, THEN conjunct2,
       THEN mp, OF zero]
  have tp: "ec_price demo_cand + take_profit_r demo_cfg * (ec_price demo_cand - 48) = 52"
    and sy: "ec_symbol demo_cand = ''ACME''" and ib: "bs_ib demo_start = demo_ib"
    by (simp_all add: demo_cand_def demo_cfg_def demo_start_def)
  have one: "buys_placed (snd (buy_one demo_cfg (Some 100000) demo_start demo_cand)) =
     [\<lparr>pb_symbol = ''ACME'', pb_currency = ''USD'', pb_quantity = 160, pb_price = 50,
       pb_stop_loss = 48, pb_take_profit = 52\<rparr>]"
    by (simp add: placed) (simp add: demo_start_def demo_cand_def demo_cfg_def)
  have two: "open_trades (bs_ib (snd (buy_one demo_cfg (Some 100000) demo_start demo_cand))) =
     [\<lparr>contract_symbol = ''ACME'', trade_order = (MarketOrder BUY 160)\<lparr>orderId := 1\<rparr>\<rparr>,
      \<lparr>contract_symbol = ''ACME'',
       trade_order = (LimitOrder SELL 160 52)
         \<lparr>orderId := 2, parentId := 1, ocaGroup := OCA_PARENT 1, ocaType := 1\<rparr>\<rparr>,
      \<lparr>contract_symbol = ''ACME'',
       trade_order = (StopOrder SELL 160 48)
         \<lparr>orderId := 3, parentId := 1, ocaGroup := OCA_PARENT 1, ocaType := 1\<rparr>\<rparr>]"
    by (simp add: placed tp sy ib bracket) (simp add: demo_ib_def)
  have three: "research_updates (snd (buy_one demo_cfg (Some 100000) demo_start demo_cand)) =
     [\<lparr>ru_research_id = 1, ru_decision = TRADE, ru_reason = Order_placed, ru_rank = 1\<rparr>]"
    by (simp add: placed) (simp add: demo_start_def demo_cand_def)
  have four: "fst (buy_one demo_cfg (Some 100000) demo_broke demo_cand) = None \<and>
   buys_placed (snd (buy_one demo_cfg (Some 100000) demo_broke demo_cand)) = [] \<and>
   open_trades (bs_ib (snd (buy_one demo_cfg (Some 100000) demo_broke demo_cand))) = [] \<and>
   research_updates (snd (buy_one demo_cfg (Some 100000) demo_broke demo_cand)) =
     [\<lparr>ru_research_id = 1, ru_decision = SHORTLISTED, ru_reason = Insufficient_budget ''USD'',
       ru_rank = 1\<rparr>]"
    by (simp add: rejected) (simp add: demo_broke_def demo_start_def demo_cand_def demo_ib_def)
  show ?thesis using one two three four by simp
qed

section \<open>The budget invariant of the selection loop\<close>

lemma affordable:
  assumes B: "0 \<le> (B::real)" and p: "p \<noteq> 0" and q: "0 < (q::int)" and le: "q \<le> \<lfloor>B / p\<rfloor>"
  shows "0 < p \<and> of_int q * p \<le> B"
proof -
  have "1 \<le> \<lfloor>B / p\<rfloor>" using q le by linarith
  then have one: "1 \<le> B / p" by (simp add: le_floor_iff)
  have ppos: "0 < p"
  proof (rule ccontr)
    assume "\<not> 0 < p"
    then have "p < 0" using p by simp
    then have "B / p \<le> 0" using B by (simp add: divide_nonneg_neg)
    then show False using one by simp
  qed
  have "of_int q \<le> (of_int \<lfloor>B / p\<rfloor> :: real)" using le by simp
  also have "\<dots> \<le> B / p" by simp
  finally have "of_int q \<le> B / p" .
  then have "of_int q * p \<le> B" using ppos by (simp add: pos_le_divide_eq)
  then show ?thesis using ppos by simp
qed

lemma buy_one_budget:
  assumes run: "buy_one cfg net_liq st cand = (e, st1)"
    and nonneg: "0 \<le> budget_get (budget_remaining st) (ec_currency cand)"
  shows "(buys_placed st1 = buys_placed st \<and> budget_remaining st1 = budget_remaining st \<and>
          selected st1 = selected st) \<or>
         (\<exists>q sl tp. 0 < q \<and>
            q \<le> \<lfloor>budget_get (budget_remaining st) (ec_currency cand) / ec_price cand\<rfloor> \<and>
            0 < ec_price cand \<and>
            of_int q * ec_price cand \<le> budget_get (budget_remaining st) (ec_currency cand) \<and>
            buys_placed st1 = buys_placed st @
              [\<lparr>pb_symbol = ec_symbol cand, pb_currency = ec_currency cand, pb_quantity = q,
                pb_price = ec_price cand, pb_stop_loss = sl, pb_take_profit = tp\<rparr>] \<and>
            budget_remaining st1 = (budget_remaining st)
              (ec_currency cand \<mapsto>
                 budget_get (budget_remaining st) (ec_currency cand) - of_int q * ec_price cand) \<and>
            selected st1 = selected st @ [ec_symbol cand])"
proof -
  let ?B = "budget_get (budget_remaining st) (ec_currency cand)"
  let ?p = "ec_price cand"
  have key: "0 < q \<Longrightarrow> q \<le> \<lfloor>?B / ?p\<rfloor> \<Longrightarrow> ?p \<noteq> 0 \<Longrightarrow>
      0 < ?p \<and> of_int q * ?p \<le> ?B \<and> max 0 (?B - of_int q * ?p) = ?B - of_int q * ?p" for q
    using affordable [OF nonneg, of ?p q] by auto
  show ?thesis
  proof (cases "ec_atr cand")
    case None
    then have "buy_one cfg net_liq st cand = (None, keep_shortlisted st cand ATR_missing)"
      by (simp add: buy_one_def Let_def)
    with run show ?thesis by (auto simp: keep_shortlisted_def)
  next
    case atr: (Some atr)
    let ?s = "?p - stop_atr_multiplier cfg * atr"
    show ?thesis
    proof (cases "?s \<le> 0")
      case True
      with atr have "buy_one cfg net_liq st cand =
          (None, keep_shortlisted st cand Stop_not_positive)"
        by (simp add: buy_one_def Let_def)
      with run show ?thesis by (auto simp: keep_shortlisted_def)
    next
      case sp: False
      show ?thesis
      proof (cases net_liq)
        case None
        with atr sp have "buy_one cfg net_liq st cand =
            (None, keep_shortlisted st cand Net_liquidation_missing)"
          by (simp add: buy_one_def Let_def)
        with run show ?thesis by (auto simp: keep_shortlisted_def)
      next
        case nl: (Some nlv)
        show ?thesis
        proof (cases "?p = 0")
          case True
          with atr sp nl have "buy_one cfg net_liq st cand = (Some ZeroDivisionError, st)"
            by (simp add: buy_one_def Let_def py_floordiv_def)
          with run show ?thesis by auto
        next
          case pnz: False
          define q where
            "q = min (calculate_position_size (risk_per_trade cfg) ?p ?s nlv) \<lfloor>?B / ?p\<rfloor>"
          have qle: "q \<le> \<lfloor>?B / ?p\<rfloor>" by (simp add: q_def)
          show ?thesis
          proof (cases "q \<le> 0")
            case True
            with atr sp nl pnz have "buy_one cfg net_liq st cand =
                (None, keep_shortlisted st cand (Insufficient_budget (ec_currency cand)))"
              by (simp add: buy_one_def Let_def py_floordiv_def py_int_of_int q_def)
            with run show ?thesis by (auto simp: keep_shortlisted_def)
          next
            case False
            then have qpos: "0 < q" by simp
            obtain t ib1 where ex: "execute_buy_order (bs_ib st) (ec_symbol cand) q (Some ?s)
                (Some (?p + take_profit_r cfg * (?p - ?s))) = (Some t, ib1)"
              using execute_buy_order_bracket [OF qpos] by blast
            have k: "0 < ?p \<and> of_int q * ?p \<le> ?B \<and>
                max 0 (?B - of_int q * ?p) = ?B - of_int q * ?p"
              using key [OF qpos qle pnz] .
            have "buy_one cfg net_liq st cand =
                (None,
                 st\<lparr>bs_ib := ib1,
                    buys_placed := buys_placed st @
                      [\<lparr>pb_symbol = ec_symbol cand, pb_currency = ec_currency cand,
                        pb_quantity = q, pb_price = ?p, pb_stop_loss = ?s,
                        pb_take_profit = ?p + take_profit_r cfg * (?p - ?s)\<rparr>],
                    budget_remaining := (budget_remaining st)
                      (ec_currency cand \<mapsto> max 0 (?B - of_int q * ?p)),
                    selected := selected st @ [ec_symbol cand],
                    research_updates := research_updates st @
                      [\<lparr>ru_research_id = ec_research_id cand, ru_decision = TRADE,
                        ru_reason = Order_placed, ru_rank = ec_rank cand\<rparr>]\<rparr>)"
              using atr sp nl pnz False ex [unfolded q_def]
              by (simp add: buy_one_def Let_def py_floordiv_def py_int_of_int q_def)
            with run have st1: "st1 =
                 st\<lparr>bs_ib := ib1,
                    buys_placed := buys_placed st @
                      [\<lparr>pb_symbol = ec_symbol cand, pb_currency = ec_currency cand,
                        pb_quantity = q, pb_price = ?p, pb_stop_loss = ?s,
                        pb_take_profit = ?p + take_profit_r cfg * (?p - ?s)\<rparr>],
                    budget_remaining := (budget_remaining st)
                      (ec_currency cand \<mapsto> ?B - of_int q * ?p),
                    selected := selected st @ [ec_symbol cand],
                    research_updates := research_updates st @
                      [\<lparr>ru_research_id = ec_research_id cand, ru_decision = TRADE,
                        ru_reason = Order_placed, ru_rank = ec_rank cand\<rparr>]\<rparr>"
              using k by simp
            have "\<exists>q sl tp. 0 < q \<and> q \<le> \<lfloor>?B / ?p\<rfloor> \<and> 0 < ?p \<and>
                of_int q * ?p \<le> ?B \<and>
                buys_placed st1 = buys_placed st @
                  [\<lparr>pb_symbol = ec_symbol cand, pb_currency = ec_currency cand,
                    pb_quantity = q, pb_price = ?p, pb_stop_loss = sl, pb_take_profit = tp\<rparr>] \<and>
                budget_remaining st1 = (budget_remaining st)
                  (ec_currency cand \<mapsto> ?B - of_int q * ?p) \<and>
                selected st1 = selected st @ [ec_symbol cand]"
              apply (rule exI [of _ q])
              apply (rule exI [of _ ?s])
              apply (rule exI [of _ "?p + take_profit_r cfg * (?p - ?s)"])
              using qpos qle k by (simp add: st1)
            then show ?thesis by blast
          qed
        qed
      qed
    qed
  qed
qed

lemma buy_one_exception:
  "buy_one cfg net_liq st cand = (Some e, st1) \<Longrightarrow> st1 = st"
  by (auto simp: buy_one_def Let_def split: option.splits if_splits prod.splits)

lemma budget_get_upd:
  "budget_get (b(c \<mapsto> x)) c' = (if c' = c then x else budget_get b c')"
  by (simp add: budget_get_def)

lemma notional_in_append:
  "notional_in c (bs @ [b]) =
     notional_in c bs + (if pb_currency b = c then of_int (pb_quantity b) * pb_price b else 0)"
  by (simp add: notional_in_def)

text \<open>One pass of the loop body conserves "placed notional + remaining budget".\<close>

lemma buy_one_conserves:
  assumes run: "buy_one cfg net_liq st cand = (e, st1)"
    and nonneg: "\<forall>c. 0 \<le> budget_get (budget_remaining st) c"
  shows "0 \<le> budget_get (budget_remaining st1) c \<and>
         budget_get (budget_remaining st1) c \<le> budget_get (budget_remaining st) c \<and>
         notional_in c (buys_placed st1) + budget_get (budget_remaining st1) c =
         notional_in c (buys_placed st) + budget_get (budget_remaining st) c"
proof -
  have n: "0 \<le> budget_get (budget_remaining st) (ec_currency cand)"
    and nc: "0 \<le> budget_get (budget_remaining st) c"
    using nonneg by simp_all
  from buy_one_budget [OF run n] show ?thesis
  proof
    assume "buys_placed st1 = buys_placed st \<and> budget_remaining st1 = budget_remaining st \<and>
          selected st1 = selected st"
    then show ?thesis using nc by simp
  next
    assume "\<exists>q sl tp. 0 < q \<and>
            q \<le> \<lfloor>budget_get (budget_remaining st) (ec_currency cand) / ec_price cand\<rfloor> \<and>
            0 < ec_price cand \<and>
            of_int q * ec_price cand \<le> budget_get (budget_remaining st) (ec_currency cand) \<and>
            buys_placed st1 = buys_placed st @
              [\<lparr>pb_symbol = ec_symbol cand, pb_currency = ec_currency cand, pb_quantity = q,
                pb_price = ec_price cand, pb_stop_loss = sl, pb_take_profit = tp\<rparr>] \<and>
            budget_remaining st1 = (budget_remaining st)
              (ec_currency cand \<mapsto>
                 budget_get (budget_remaining st) (ec_currency cand) - of_int q * ec_price cand) \<and>
            selected st1 = selected st @ [ec_symbol cand]"
    then obtain q sl tp where q: "0 < q" "0 < ec_price cand"
        "of_int q * ec_price cand \<le> budget_get (budget_remaining st) (ec_currency cand)"
      and b: "buys_placed st1 = buys_placed st @
              [\<lparr>pb_symbol = ec_symbol cand, pb_currency = ec_currency cand, pb_quantity = q,
                pb_price = ec_price cand, pb_stop_loss = sl, pb_take_profit = tp\<rparr>]"
      and r: "budget_remaining st1 = (budget_remaining st)
              (ec_currency cand \<mapsto>
                 budget_get (budget_remaining st) (ec_currency cand) - of_int q * ec_price cand)"
      by blast
    have "0 \<le> of_int q * ec_price cand" using q by simp
    then show ?thesis using q nc by (simp add: b r budget_get_upd notional_in_append)
  qed
qed

lemma buy_loop_conserves:
  "buy_loop cfg net_liq eligible st desired = (e, st') \<Longrightarrow>
   \<forall>c. 0 \<le> budget_get (budget_remaining st) c \<Longrightarrow>
   0 \<le> budget_get (budget_remaining st') c \<and>
   budget_get (budget_remaining st') c \<le> budget_get (budget_remaining st) c \<and>
   notional_in c (buys_placed st') + budget_get (budget_remaining st') c =
   notional_in c (buys_placed st) + budget_get (budget_remaining st) c"
proof (induction desired arbitrary: st)
  case Nil
  then show ?case by simp
next
  case (Cons s desired)
  show ?case
  proof (cases "max_new cfg \<le> int (length (selected st))")
    case True
    with Cons.prems show ?thesis by simp
  next
    case full: False
    show ?thesis
    proof (cases "cand_by_symbol eligible (upper s)")
      case None
      with full Cons.prems have "buy_loop cfg net_liq eligible st desired = (e, st')" by simp
      from Cons.IH [OF this Cons.prems(2)] show ?thesis .
    next
      case (Some cand)
      obtain e1 st1 where one: "buy_one cfg net_liq st cand = (e1, st1)"
        by (cases "buy_one cfg net_liq st cand")
      have step: "0 \<le> budget_get (budget_remaining st1) c' \<and>
         budget_get (budget_remaining st1) c' \<le> budget_get (budget_remaining st) c' \<and>
         notional_in c' (buys_placed st1) + budget_get (budget_remaining st1) c' =
         notional_in c' (buys_placed st) + budget_get (budget_remaining st) c'" for c'
        using buy_one_conserves [OF one Cons.prems(2)] .
      show ?thesis
      proof (cases e1)
        case None
        with full Some one Cons.prems
        have "buy_loop cfg net_liq eligible st1 desired = (e, st')" by simp
        moreover have "\<forall>c. 0 \<le> budget_get (budget_remaining st1) c" using step by blast
        ultimately have "0 \<le> budget_get (budget_remaining st') c \<and>
            budget_get (budget_remaining st') c \<le> budget_get (budget_remaining st1) c \<and>
            notional_in c (buys_placed st') + budget_get (budget_remaining st') c =
            notional_in c (buys_placed st1) + budget_get (budget_remaining st1) c"
          by (rule Cons.IH)
        with step [of c] show ?thesis by linarith
      next
        case (Some ex)
        with full \<open>cand_by_symbol eligible (upper s) = Some cand\<close> one Cons.prems
        have "st' = st1" by simp
        with step [of c] show ?thesis by simp
      qed
    qed
  qed
qed

lemma currency_budget_nonneg: "0 \<le> currency_budget acc tag util reserves cur"
  by (simp add: currency_budget_def Let_def split: option.splits)

lemma cash_budgets_nonneg:
  "\<forall>c. 0 \<le> budget_get budgets c \<Longrightarrow>
   0 \<le> budget_get (cash_budgets acc tag util reserves budgets currencies) c"
proof (induction currencies arbitrary: budgets)
  case Nil
  then show ?case by simp
next
  case (Cons cur currencies)
  have "\<forall>c. 0 \<le> budget_get (budgets(cur \<mapsto> currency_budget acc tag util reserves cur)) c"
    using Cons.prems currency_budget_nonneg by (simp add: budget_get_upd)
  then show ?case unfolding cash_budgets.simps by (rule Cons.IH)
qed


lemma cand_by_symbol_key:
  "cand_by_symbol cs key = Some c \<Longrightarrow> upper (ec_symbol c) = key \<and> c \<in> set cs"
  by (induction cs) (auto split: option.splits if_splits)

lemma buy_one_buys:
  "buy_one cfg net_liq st cand = (e, st1) \<Longrightarrow>
   buys_placed st1 = buys_placed st \<or>
   (\<exists>b. buys_placed st1 = buys_placed st @ [b] \<and> pb_symbol b = ec_symbol cand)"
  by (auto simp: buy_one_def Let_def keep_shortlisted_def
           split: option.splits if_splits prod.splits)

text \<open>The buys are placed in the order of the selection.\<close>

lemma buy_loop_order:
  "buy_loop cfg net_liq eligible st desired = (e, st') \<Longrightarrow>
   \<exists>ext. buys_placed st' = buys_placed st @ ext \<and>
         subseq (map (\<lambda>b. upper (pb_symbol b)) ext) (map upper desired)"
proof (induction desired arbitrary: st)
  case Nil
  then show ?case by simp
next
  case (Cons s desired)
  show ?case
  proof (cases "max_new cfg \<le> int (length (selected st))")
    case True
    with Cons.prems show ?thesis by simp
  next
    case full: False
    show ?thesis
    proof (cases "cand_by_symbol eligible (upper s)")
      case None
      with full Cons.prems have "buy_loop cfg net_liq eligible st desired = (e, st')" by simp
      from Cons.IH [OF this] obtain ext where
        "buys_placed st' = buys_placed st @ ext"
        "subseq (map (\<lambda>b. upper (pb_symbol b)) ext) (map upper desired)" by blast
      then show ?thesis by (auto intro: subseq_Cons')
    next
      case (Some cand)
      then have key: "upper (ec_symbol cand) = upper s" using cand_by_symbol_key by blast
      obtain e1 st1 where one: "buy_one cfg net_liq st cand = (e1, st1)"
        by (cases "buy_one cfg net_liq st cand")
      from buy_one_buys [OF one] obtain pre where
        pre: "buys_placed st1 = buys_placed st @ pre"
          "subseq (map (\<lambda>b. upper (pb_symbol b)) pre) [upper s]"
        using key by auto
      show ?thesis
      proof (cases e1)
        case None
        with full Some one Cons.prems
        have "buy_loop cfg net_liq eligible st1 desired = (e, st')" by simp
        from Cons.IH [OF this] obtain ext where
          ext: "buys_placed st' = buys_placed st1 @ ext"
            "subseq (map (\<lambda>b. upper (pb_symbol b)) ext) (map upper desired)" by blast
        have "subseq (map (\<lambda>b. upper (pb_symbol b)) (pre @ ext)) ([upper s] @ map upper desired)"
          using pre(2) ext(2) by (simp only: map_append) (rule list_emb_append_mono)
        then show ?thesis using pre(1) ext(1) by auto
      next
        case (Some ex)
        with full \<open>cand_by_symbol eligible (upper s) = Some cand\<close> one Cons.prems
        have "st' = st1" by simp
        moreover have "subseq (map (\<lambda>b. upper (pb_symbol b)) pre) (upper s # map upper desired)"
          using pre(2) subseq_order.order_trans [OF pre(2), of "upper s # map upper desired"]
          by (simp add: subseq_Cons2_iff)
        ultimately show ?thesis using pre(1) by auto
      qed
    qed
  qed
qed

text \<open>
  C1. Starting a cycle from the budgets computed from the account summary and with no
  buy placed yet, whatever the selection returns and wherever the loop stops (also by
  an exception), for every currency: the notional of the buys placed is at most that
  currency's budget; placed notional plus remaining budget stays equal to the
  budget; the remaining budget never rises and never goes below zero. The buys are
  placed one after another in the order of the selection. In each pass of the loop
  body that places a buy, the quantity is positive and at most
  \<open>\<lfloor>remaining / price\<rfloor>\<close>, and the remaining budget of that currency drops by
  quantity times price.
\<close>

theorem cycle_budget_never_oversubscribed:
  assumes init: "budget_remaining st0 =
      cash_budgets acc_summary cash_budget_tag max_cash_utilisation min_cash_reserve
        Map.empty currencies"
    and fresh: "buys_placed st0 = []"
    and run: "buy_loop cfg net_liq eligible st0 desired = (e, st')"
  shows "notional_in cur (buys_placed st') \<le> budget_get (budget_remaining st0) cur \<and>
         notional_in cur (buys_placed st') + budget_get (budget_remaining st') cur =
           budget_get (budget_remaining st0) cur \<and>
         0 \<le> budget_get (budget_remaining st') cur \<and>
         budget_get (budget_remaining st') cur \<le> budget_get (budget_remaining st0) cur \<and>
         subseq (map (\<lambda>b. upper (pb_symbol b)) (buys_placed st')) (map upper desired) \<and>
         (\<forall>st cand e1 st1.
            0 \<le> budget_get (budget_remaining st) (ec_currency cand) \<and>
            buy_one cfg net_liq st cand = (e1, st1) \<and> buys_placed st1 \<noteq> buys_placed st \<longrightarrow>
            (\<exists>q sl tp. 0 < q \<and>
               q \<le> \<lfloor>budget_get (budget_remaining st) (ec_currency cand) / ec_price cand\<rfloor> \<and>
               buys_placed st1 = buys_placed st @
                 [\<lparr>pb_symbol = ec_symbol cand, pb_currency = ec_currency cand, pb_quantity = q,
                   pb_price = ec_price cand, pb_stop_loss = sl, pb_take_profit = tp\<rparr>] \<and>
               budget_get (budget_remaining st1) (ec_currency cand) =
                 budget_get (budget_remaining st) (ec_currency cand) - of_int q * ec_price cand))"
proof -
  have nonneg: "\<forall>c. 0 \<le> budget_get (budget_remaining st0) c"
    unfolding init by (intro allI cash_budgets_nonneg) (simp add: budget_get_def)
  have cons: "0 \<le> budget_get (budget_remaining st') cur \<and>
      budget_get (budget_remaining st') cur \<le> budget_get (budget_remaining st0) cur \<and>
      notional_in cur (buys_placed st') + budget_get (budget_remaining st') cur =
      notional_in cur (buys_placed st0) + budget_get (budget_remaining st0) cur"
    using buy_loop_conserves [OF run nonneg] .
  have zero: "notional_in cur (buys_placed st0) = 0" by (simp add: fresh notional_in_def)
  have ord: "subseq (map (\<lambda>b. upper (pb_symbol b)) (buys_placed st')) (map upper desired)"
    using buy_loop_order [OF run] fresh by auto
  have step: "\<exists>q sl tp. 0 < q \<and>
               q \<le> \<lfloor>budget_get (budget_remaining st) (ec_currency cand) / ec_price cand\<rfloor> \<and>
               buys_placed st1 = buys_placed st @
                 [\<lparr>pb_symbol = ec_symbol cand, pb_currency = ec_currency cand, pb_quantity = q,
                   pb_price = ec_price cand, pb_stop_loss = sl, pb_take_profit = tp\<rparr>] \<and>
               budget_get (budget_remaining st1) (ec_currency cand) =
                 budget_get (budget_remaining st) (ec_currency cand) - of_int q * ec_price cand"
    if h: "0 \<le> budget_get (budget_remaining st) (ec_currency cand) \<and>
            buy_one cfg net_liq st cand = (e1, st1) \<and> buys_placed st1 \<noteq> buys_placed st"
    for st cand e1 st1
  proof -
    from h have a: "buy_one cfg net_liq st cand = (e1, st1)"
      and b: "0 \<le> budget_get (budget_remaining st) (ec_currency cand)"
      and c: "buys_placed st1 \<noteq> buys_placed st" by simp_all
    from buy_one_budget [OF a b] c obtain q sl tp where
      "0 < q"
      "q \<le> \<lfloor>budget_get (budget_remaining st) (ec_currency cand) / ec_price cand\<rfloor>"
      "buys_placed st1 = buys_placed st @
              [\<lparr>pb_symbol = ec_symbol cand, pb_currency = ec_currency cand, pb_quantity = q,
                pb_price = ec_price cand, pb_stop_loss = sl, pb_take_profit = tp\<rparr>]"
      "budget_remaining st1 = (budget_remaining st)
              (ec_currency cand \<mapsto>
                 budget_get (budget_remaining st) (ec_currency cand) - of_int q * ec_price cand)"
      by blast
    then show ?thesis by (auto simp: budget_get_upd)
  qed
  from cons zero have "notional_in cur (buys_placed st') \<le> budget_get (budget_remaining st0) cur"
    by linarith
  with cons zero ord step show ?thesis by simp
qed

lemma upper_ACME: "upper ''ACME'' = ''ACME''"
  by (simp add: upper_def upper_char_def)

theorem cycle_budget_never_oversubscribed_witness:
  "budget_get (budget_remaining demo_start) ''USD'' = 8000 \<and>
   notional_in ''USD''
     (buys_placed (snd (buy_loop demo_cfg (Some 100000) [demo_cand] demo_start [''ACME'']))) \<le> 8000 \<and>
   0 \<le> budget_get
     (budget_remaining (snd (buy_loop demo_cfg (Some 100000) [demo_cand] demo_start [''ACME''])))
     ''USD''"
proof -
  have init: "budget_remaining demo_start =
      cash_budgets demo_summary ''TotalCashValue'' (8 / 10) Map.empty Map.empty [''USD'']"
    by (simp add: demo_start_def)
  have fresh: "buys_placed demo_start = []" by (simp add: demo_start_def)
  have run: "buy_loop demo_cfg (Some 100000) [demo_cand] demo_start [''ACME''] =
      (fst (buy_loop demo_cfg (Some 100000) [demo_cand] demo_start [''ACME'']),
       snd (buy_loop demo_cfg (Some 100000) [demo_cand] demo_start [''ACME'']))"
    by simp
  from cycle_budget_never_oversubscribed [OF init fresh run, of "''USD''"] demo_start_budget
  show ?thesis by simp
qed

section \<open>The runner: research of the candidates\<close>

record watch_item =
  wi_symbol :: string
  wi_exchange :: string
  wi_currency :: string

text \<open>The exceptions the research handlers tell apart; the last carries the type name.\<close>

datatype raised =
    SymbolTimeout string
  | TimeoutError string
  | ConnectionError string
  | OtherException string string

datatype ai_verdict = SHORTLIST | SKIP

text \<open>The validated answer of \<open>decide_intraday_trade\<close>.\<close>

record ai_decision =
  ad_decision :: ai_verdict
  ad_confidence :: real
  ad_score :: real
  ad_sentiment :: real
  ad_rationale :: string

text \<open>
  What the body of the \<open>try\<close> meets for one symbol: some call raises (with the price
  and score set so far), the bars are empty, or the analysis completes with the
  price, the \<open>ATRr_14\<close> value, the AI label and the AI decision.
\<close>

datatype research_outcome =
    Raised "real option" "real option" raised
  | Empty_frame
  | Analysed real "real option" string ai_decision

text \<open>
  The environment of one symbol: the outcome above, the wall-clock seconds the
  research takes, and the answers of \<open>is_market_open\<close> and \<open>is_near_market_close\<close>.
\<close>

record symbol_env =
  outcome :: research_outcome
  elapsed_seconds :: nat
  market_open :: bool
  near_market_close :: bool

text \<open>A row written by \<open>log_research\<close>.\<close>

record research_row =
  rr_symbol :: string
  rr_exchange :: string
  rr_currency :: string
  rr_price :: "real option"
  rr_score :: "real option"
  rr_decision :: decision
  rr_reason :: reason

text \<open>The four \<open>except\<close> clauses, in the source's order.\<close>

fun handler_reason :: "raised \<Rightarrow> reason" where
  "handler_reason (SymbolTimeout m) = Symbol_timed_out m"
| "handler_reason (TimeoutError m) = Timeout_during_analysis m"
| "handler_reason (ConnectionError m) = Connection_error m"
| "handler_reason (OtherException ty m) = Error_during_analysis ty m"

definition research_row_of ::
  "watch_item \<Rightarrow> real option \<Rightarrow> real option \<Rightarrow> decision \<Rightarrow> reason \<Rightarrow> research_row" where
  "research_row_of item price score d why =
     \<lparr>rr_symbol = wi_symbol item, rr_exchange = wi_exchange item,
      rr_currency = wi_currency item, rr_price = price, rr_score = score,
      rr_decision = d, rr_reason = why\<rparr>"

text \<open>
  One pass of the loop over the watch list, up to the call of \<open>log_research\<close>: the
  row to persist and the eligible candidate, if any (its research id and rank are
  set later). The research is called in line: the elapsed time is not consulted.
\<close>

definition research_symbol ::
  "bool \<Rightarrow> string list \<Rightarrow> (string \<Rightarrow> real option) \<Rightarrow> watch_item \<Rightarrow> symbol_env \<Rightarrow>
   research_row \<times> eligible_candidate option" where
  "research_symbol intraday_enabled open_symbols budget_remaining' item env =
     (case outcome env of
        Raised price score ex \<Rightarrow>
          (research_row_of item price score REJECTED (handler_reason ex), None)
      | Empty_frame \<Rightarrow> (research_row_of item None None REJECTED No_market_data, None)
      | Analysed price atr label ai \<Rightarrow>
          (let score = Some (ad_score ai) in
           if ad_decision ai = SHORTLIST then
             (let why = AI_shortlist label (ad_confidence ai) (ad_rationale ai) in
              if \<not> market_open env then
                (research_row_of item (Some price) score REJECTED (Market_closed why), None)
              else if intraday_enabled \<and> near_market_close env then
                (research_row_of item (Some price) score REJECTED Too_close_to_close, None)
              else if wi_symbol item \<in> set open_symbols then
                (research_row_of item (Some price) score REJECTED Already_holding, None)
              else if budget_get budget_remaining' (wi_currency item) \<le> 0 then
                (research_row_of item (Some price) score REJECTED
                   (No_cash_budget (wi_currency item)), None)
              else
                (research_row_of item (Some price) score SHORTLISTED why,
                 Some \<lparr>ec_symbol = wi_symbol item, ec_currency = wi_currency item,
                       ec_price = price, ec_atr = atr, ec_research_id = 0, ec_rank = 0\<rparr>))
           else
             (research_row_of item (Some price) score REJECTED
                (AI_skip label (ad_confidence ai) (ad_rationale ai)), None)))"

record research_state =
  research_log :: "research_row list"
  eligible_found :: "eligible_candidate list"

text \<open>
  The loop over the watch list: \<open>log_research\<close> appends the row and returns its id,
  which the eligible candidate then carries.
\<close>

fun research_loop ::
  "bool \<Rightarrow> string list \<Rightarrow> (string \<Rightarrow> real option) \<Rightarrow> research_state \<Rightarrow>
   (watch_item \<times> symbol_env) list \<Rightarrow> research_state" where
  "research_loop ie os br st [] = st"
| "research_loop ie os br st ((item, env) # rest) =
     (let (row, cand) = research_symbol ie os br item env;
          log1 = research_log st @ [row];
          research_id = length log1
      in research_loop ie os br
           \<lparr>research_log = log1,
            eligible_found =
              (case cand of
                 None \<Rightarrow> eligible_found st
               | Some c \<Rightarrow> eligible_found st @ [c\<lparr>ec_research_id := research_id\<rparr>])\<rparr>
           rest)"

section \<open>\<open>process_with_timeout\<close>\<close>

definition SYMBOL_TIMEOUT_SECONDS :: nat where
  "SYMBOL_TIMEOUT_SECONDS = 45"

text \<open>
  \<open>process_with_timeout(func, timeout_seconds)\<close>: the run of \<open>func\<close> is given by the
  seconds it takes and its result; waiting longer than the timeout raises
  \<open>SymbolTimeout\<close>.
\<close>

definition process_with_timeout :: "nat \<times> 'a \<Rightarrow> nat \<Rightarrow> raised + 'a" where
  "process_with_timeout run timeout_seconds =
     (if timeout_seconds < fst run then Inl (SymbolTimeout ''Processing timed out'')
      else Inr (snd run))"

section \<open>One research record per candidate\<close>

lemma research_loop_log:
  "research_log (research_loop ie os br st items) =
     research_log st @ map (\<lambda>(item, env). fst (research_symbol ie os br item env)) items"
  by (induction items arbitrary: st) (auto simp: Let_def split: prod.splits)

text \<open>
  C4. The loop over the watch list appends exactly one research row per candidate, in
  the order of the list, whatever the research of each symbol meets. Every row
  carries the candidate's symbol, a decision (REJECTED or SHORTLISTED) and a reason
  other than the initial "Uninitialised". When the research raised, the row is
  REJECTED, the candidate is not eligible, and the reason names the failure with
  the exception's text: "Symbol processing timed out: ..." for a symbol timeout,
  "Timeout during analysis: ..." for a timeout, "Connection error: ..." for a
  connection error and "Error during analysis: Type: ..." for any other exception.
  Empty bars give REJECTED with "No market data"; a completed analysis gives the AI's
  reason, or the reason of the gate that rejected a shortlisted symbol.
\<close>

theorem one_research_record_per_candidate:
  "length (research_log (research_loop ie os br st items)) =
     length (research_log st) + length items \<and>
   research_log (research_loop ie os br st items) =
     research_log st @ map (\<lambda>(item, env). fst (research_symbol ie os br item env)) items \<and>
   (\<forall>item env.
      rr_symbol (fst (research_symbol ie os br item env)) = wi_symbol item \<and>
      (rr_decision (fst (research_symbol ie os br item env)) = REJECTED \<or>
       rr_decision (fst (research_symbol ie os br item env)) = SHORTLISTED) \<and>
      rr_reason (fst (research_symbol ie os br item env)) \<noteq> Uninitialised \<and>
      (\<forall>price score m. outcome env = Raised price score (SymbolTimeout m) \<longrightarrow>
         research_symbol ie os br item env =
           (\<lparr>rr_symbol = wi_symbol item, rr_exchange = wi_exchange item,
             rr_currency = wi_currency item, rr_price = price, rr_score = score,
             rr_decision = REJECTED, rr_reason = Symbol_timed_out m\<rparr>, None)) \<and>
      (\<forall>price score m. outcome env = Raised price score (TimeoutError m) \<longrightarrow>
         research_symbol ie os br item env =
           (\<lparr>rr_symbol = wi_symbol item, rr_exchange = wi_exchange item,
             rr_currency = wi_currency item, rr_price = price, rr_score = score,
             rr_decision = REJECTED, rr_reason = Timeout_during_analysis m\<rparr>, None)) \<and>
      (\<forall>price score m. outcome env = Raised price score (ConnectionError m) \<longrightarrow>
         research_symbol ie os br item env =
           (\<lparr>rr_symbol = wi_symbol item, rr_exchange = wi_exchange item,
             rr_currency = wi_currency item, rr_price = price, rr_score = score,
             rr_decision = REJECTED, rr_reason = Connection_error m\<rparr>, None)) \<and>
      (\<forall>price score ty m. outcome env = Raised price score (OtherException ty m) \<longrightarrow>
         research_symbol ie os br item env =
           (\<lparr>rr_symbol = wi_symbol item, rr_exchange = wi_exchange item,
             rr_currency = wi_currency item, rr_price = price, rr_score = score,
             rr_decision = REJECTED, rr_reason = Error_during_analysis ty m\<rparr>, None)) \<and>
      (outcome env = Empty_frame \<longrightarrow>
         research_symbol ie os br item env =
           (\<lparr>rr_symbol = wi_symbol item, rr_exchange = wi_exchange item,
             rr_currency = wi_currency item, rr_price = None, rr_score = None,
             rr_decision = REJECTED, rr_reason = No_market_data\<rparr>, None)) \<and>
      (\<forall>price atr label ai. outcome env = Analysed price atr label ai \<longrightarrow>
         (ad_decision ai = SKIP \<longrightarrow>
            research_symbol ie os br item env =
              (\<lparr>rr_symbol = wi_symbol item, rr_exchange = wi_exchange item,
                rr_currency = wi_currency item, rr_price = Some price,
                rr_score = Some (ad_score ai), rr_decision = REJECTED,
                rr_reason = AI_skip label (ad_confidence ai) (ad_rationale ai)\<rparr>, None)) \<and>
         (ad_decision ai = SHORTLIST \<longrightarrow>
            rr_price (fst (research_symbol ie os br item env)) = Some price \<and>
            rr_score (fst (research_symbol ie os br item env)) = Some (ad_score ai) \<and>
            (rr_decision (fst (research_symbol ie os br item env)) = SHORTLISTED
               \<longleftrightarrow> rr_reason (fst (research_symbol ie os br item env)) =
                     AI_shortlist label (ad_confidence ai) (ad_rationale ai)) \<and>
            (rr_decision (fst (research_symbol ie os br item env)) = SHORTLISTED
               \<longleftrightarrow> snd (research_symbol ie os br item env) =
                     Some \<lparr>ec_symbol = wi_symbol item, ec_currency = wi_currency item,
                           ec_price = price, ec_atr = atr, ec_research_id = 0, ec_rank = 0\<rparr>) \<and>
            (rr_decision (fst (research_symbol ie os br item env)) = REJECTED
               \<longleftrightarrow> snd (research_symbol ie os br item env) = None) \<and>
            rr_reason (fst (research_symbol ie os br item env)) \<in>
              {AI_shortlist label (ad_confidence ai) (ad_rationale ai),
               Market_closed (AI_shortlist label (ad_confidence ai) (ad_rationale ai)),
               Too_close_to_close, Already_holding, No_cash_budget (wi_currency item)})))"
proof -
  have len: "length (research_log (research_loop ie os br st items)) =
     length (research_log st) + length items"
    by (simp add: research_loop_log)
  have row: "rr_symbol (fst (research_symbol ie os br item env)) = wi_symbol item \<and>
      (rr_decision (fst (research_symbol ie os br item env)) = REJECTED \<or>
       rr_decision (fst (research_symbol ie os br item env)) = SHORTLISTED) \<and>
      rr_reason (fst (research_symbol ie os br item env)) \<noteq> Uninitialised \<and>
      (\<forall>price score m. outcome env = Raised price score (SymbolTimeout m) \<longrightarrow>
         research_symbol ie os br item env =
           (\<lparr>rr_symbol = wi_symbol item, rr_exchange = wi_exchange item,
             rr_currency = wi_currency item, rr_price = price, rr_score = score,
             rr_decision = REJECTED, rr_reason = Symbol_timed_out m\<rparr>, None)) \<and>
      (\<forall>price score m. outcome env = Raised price score (TimeoutError m) \<longrightarrow>
         research_symbol ie os br item env =
           (\<lparr>rr_symbol = wi_symbol item, rr_exchange = wi_exchange item,
             rr_currency = wi_currency item, rr_price = price, rr_score = score,
             rr_decision = REJECTED, rr_reason = Timeout_during_analysis m\<rparr>, None)) \<and>
      (\<forall>price score m. outcome env = Raised price score (ConnectionError m) \<longrightarrow>
         research_symbol ie os br item env =
           (\<lparr>rr_symbol = wi_symbol item, rr_exchange = wi_exchange item,
             rr_currency = wi_currency item, rr_price = price, rr_score = score,
             rr_decision = REJECTED, rr_reason = Connection_error m\<rparr>, None)) \<and>
      (\<forall>price score ty m. outcome env = Raised price score (OtherException ty m) \<longrightarrow>
         research_symbol ie os br item env =
           (\<lparr>rr_symbol = wi_symbol item, rr_exchange = wi_exchange item,
             rr_currency = wi_currency item, rr_price = price, rr_score = score,
             rr_decision = REJECTED, rr_reason = Error_during_analysis ty m\<rparr>, None)) \<and>
      (outcome env = Empty_frame \<longrightarrow>
         research_symbol ie os br item env =
           (\<lparr>rr_symbol = wi_symbol item, rr_exchange = wi_exchange item,
             rr_currency = wi_currency item, rr_price = None, rr_score = None,
             rr_decision = REJECTED, rr_reason = No_market_data\<rparr>, None)) \<and>
      (\<forall>price atr label ai. outcome env = Analysed price atr label ai \<longrightarrow>
         (ad_decision ai = SKIP \<longrightarrow>
            research_symbol ie os br item env =
              (\<lparr>rr_symbol = wi_symbol item, rr_exchange = wi_exchange item,
                rr_currency = wi_currency item, rr_price = Some price,
                rr_score = Some (ad_score ai), rr_decision = REJECTED,
                rr_reason = AI_skip label (ad_confidence ai) (ad_rationale ai)\<rparr>, None)) \<and>
         (ad_decision ai = SHORTLIST \<longrightarrow>
            rr_price (fst (research_symbol ie os br item env)) = Some price \<and>
            rr_score (fst (research_symbol ie os br item env)) = Some (ad_score ai) \<and>
            (rr_decision (fst (research_symbol ie os br item env)) = SHORTLISTED
               \<longleftrightarrow> rr_reason (fst (research_symbol ie os br item env)) =
                     AI_shortlist label (ad_confidence ai) (ad_rationale ai)) \<and>
            (rr_decision (fst (research_symbol ie os br item env)) = SHORTLISTED
               \<longleftrightarrow> snd (research_symbol ie os br item env) =
                     Some \<lparr>ec_symbol = wi_symbol item, ec_currency = wi_currency item,
                           ec_price = price, ec_atr = atr, ec_research_id = 0, ec_rank = 0\<rparr>) \<and>
            (rr_decision (fst (research_symbol ie os br item env)) = REJECTED
               \<longleftrightarrow> snd (research_symbol ie os br item env) = None) \<and>
            rr_reason (fst (research_symbol ie os br item env)) \<in>
              {AI_shortlist label (ad_confidence ai) (ad_rationale ai),
               Market_closed (AI_shortlist label (ad_confidence ai) (ad_rationale ai)),
               Too_close_to_close, Already_holding, No_cash_budget (wi_currency item)}))"
    for item env
  proof (cases "outcome env")
    case (Raised price score ex)
    then show ?thesis
      by (cases ex) (simp_all add: research_symbol_def research_row_of_def)
  next
    case Empty_frame
    then show ?thesis by (simp add: research_symbol_def research_row_of_def)
  next
    case (Analysed price atr label ai)
    then show ?thesis
      by (cases "ad_decision ai")
         (simp_all add: research_symbol_def research_row_of_def Let_def)
  qed
  show ?thesis
    apply (rule conjI [OF len])
    apply (rule conjI [OF research_loop_log])
    apply (intro allI)
    apply (rule row)
    done
qed

definition acme_item :: watch_item where
  "acme_item = \<lparr>wi_symbol = ''ACME'', wi_exchange = ''SMART'', wi_currency = ''USD''\<rparr>"

definition gbp_item :: watch_item where
  "gbp_item = \<lparr>wi_symbol = ''VOD'', wi_exchange = ''LSE'', wi_currency = ''GBP''\<rparr>"

definition keen :: ai_decision where
  "keen = \<lparr>ad_decision = SHORTLIST, ad_confidence = 8 / 10, ad_score = 7 / 10,
           ad_sentiment = 1 / 2, ad_rationale = ''breakout''\<rparr>"

definition timed_out_env :: symbol_env where
  "timed_out_env =
     \<lparr>outcome = Raised None None (TimeoutError ''OpenAI API timed out''),
      elapsed_seconds = 30, market_open = True, near_market_close = False\<rparr>"

definition refused_env :: symbol_env where
  "refused_env =
     \<lparr>outcome = Raised (Some 12) None (ConnectionError ''Failed to connect to OpenAI API''),
      elapsed_seconds = 3, market_open = True, near_market_close = False\<rparr>"

definition broken_env :: symbol_env where
  "broken_env =
     \<lparr>outcome = Raised (Some 12) None (OtherException ''ValueError'' ''AI rationale is empty''),
      elapsed_seconds = 3, market_open = True, near_market_close = False\<rparr>"

definition slow_env :: symbol_env where
  "slow_env =
     \<lparr>outcome = Analysed 50 (Some 1) ''AI (Technicals)'' keen,
      elapsed_seconds = 100, market_open = True, near_market_close = False\<rparr>"

definition demo_budgets :: "string \<Rightarrow> real option" where
  "demo_budgets =
     cash_budgets demo_summary ''TotalCashValue'' (8 / 10) Map.empty Map.empty [''USD'', ''GBP'']"

definition no_rows :: research_state where
  "no_rows = \<lparr>research_log = [], eligible_found = []\<rparr>"

theorem one_research_record_per_candidate_witness:
  "research_log (research_loop True [] demo_budgets no_rows
      [(acme_item, timed_out_env), (gbp_item, refused_env), (acme_item, broken_env)]) =
     [\<lparr>rr_symbol = ''ACME'', rr_exchange = ''SMART'', rr_currency = ''USD'', rr_price = None,
       rr_score = None, rr_decision = REJECTED,
       rr_reason = Timeout_during_analysis ''OpenAI API timed out''\<rparr>,
      \<lparr>rr_symbol = ''VOD'', rr_exchange = ''LSE'', rr_currency = ''GBP'', rr_price = Some 12,
       rr_score = None, rr_decision = REJECTED,
       rr_reason = Connection_error ''Failed to connect to OpenAI API''\<rparr>,
      \<lparr>rr_symbol = ''ACME'', rr_exchange = ''SMART'', rr_currency = ''USD'', rr_price = Some 12,
       rr_score = None, rr_decision = REJECTED,
       rr_reason = Error_during_analysis ''ValueError'' ''AI rationale is empty''\<rparr>]"
proof -
  note t = one_research_record_per_candidate [of True "[]" demo_budgets no_rows
      "[(acme_item, timed_out_env), (gbp_item, refused_env), (acme_item, broken_env)]"]
  have o1: "outcome timed_out_env = Raised None None (TimeoutError ''OpenAI API timed out'')"
    and o2: "outcome refused_env =
      Raised (Some 12) None (ConnectionError ''Failed to connect to OpenAI API'')"
    and o3: "outcome broken_env =
      Raised (Some 12) None (OtherException ''ValueError'' ''AI rationale is empty'')"
    by (simp_all add: timed_out_env_def refused_env_def broken_env_def)
  from t o1 have r1: "research_symbol True [] demo_budgets acme_item timed_out_env =
      (\<lparr>rr_symbol = wi_symbol acme_item, rr_exchange = wi_exchange acme_item,
        rr_currency = wi_currency acme_item, rr_price = None, rr_score = None,
        rr_decision = REJECTED,
        rr_reason = Timeout_during_analysis ''OpenAI API timed out''\<rparr>, None)"
    by blast
  from t o2 have r2: "research_symbol True [] demo_budgets gbp_item refused_env =
      (\<lparr>rr_symbol = wi_symbol gbp_item, rr_exchange = wi_exchange gbp_item,
        rr_currency = wi_currency gbp_item, rr_price = Some 12, rr_score = None,
        rr_decision = REJECTED,
        rr_reason = Connection_error ''Failed to connect to OpenAI API''\<rparr>, None)"
    by blast
  from t o3 have r3: "research_symbol True [] demo_budgets acme_item broken_env =
      (\<lparr>rr_symbol = wi_symbol acme_item, rr_exchange = wi_exchange acme_item,
        rr_currency = wi_currency acme_item, rr_price = Some 12, rr_score = None,
        rr_decision = REJECTED,
        rr_reason = Error_during_analysis ''ValueError'' ''AI rationale is empty''\<rparr>, None)"
    by blast
  from t have L: "research_log (research_loop True [] demo_budgets no_rows
      [(acme_item, timed_out_env), (gbp_item, refused_env), (acme_item, broken_env)]) =
     research_log no_rows @
       map (\<lambda>(item, env). fst (research_symbol True [] demo_budgets item env))
         [(acme_item, timed_out_env), (gbp_item, refused_env), (acme_item, broken_env)]"
    by blast
  show ?thesis
    unfolding L by (simp add: r1 r2 r3 no_rows_def) (simp add: acme_item_def gbp_item_def)
qed

section \<open>The per-symbol timeout is not applied\<close>

lemma demo_budgets_USD: "budget_get demo_budgets ''USD'' = 8000"
  by (simp add: demo_budgets_def currency_budget_def get_account_value_def demo_summary_def
        budget_get_def)


text \<open>
  C3. The claim asks for a 45 second limit on the research of a symbol. Wrapped in
  \<open>process_with_timeout\<close>, a research that takes 100 seconds raises
  \<open>SymbolTimeout\<close>; the loop body calls the research in line instead, so the same
  symbol is SHORTLISTED and becomes eligible.
\<close>

theorem slow_symbol_not_timed_out:
  "process_with_timeout (elapsed_seconds slow_env, outcome slow_env) SYMBOL_TIMEOUT_SECONDS =
     Inl (SymbolTimeout ''Processing timed out'') \<and>
   rr_decision (fst (research_symbol True [] demo_budgets acme_item slow_env)) = SHORTLISTED \<and>
   rr_reason (fst (research_symbol True [] demo_budgets acme_item slow_env)) =
     AI_shortlist ''AI (Technicals)'' (8 / 10) ''breakout'' \<and>
   snd (research_symbol True [] demo_budgets acme_item slow_env) =
     Some \<lparr>ec_symbol = ''ACME'', ec_currency = ''USD'', ec_price = 50, ec_atr = Some 1,
           ec_research_id = 0, ec_rank = 0\<rparr>"
  using demo_budgets_USD
  by (simp add: process_with_timeout_def SYMBOL_TIMEOUT_SECONDS_def slow_env_def
        research_symbol_def research_row_of_def acme_item_def keen_def Let_def)

lemma research_ignores_elapsed_time:
  "research_symbol ie os br item (env\<lparr>elapsed_seconds := n\<rparr>) = research_symbol ie os br item env"
  by (simp add: research_symbol_def Let_def split: research_outcome.splits)

section \<open>A currency without a readable cash tag\<close>











text \<open>
  The lookup behind the budget falls back to the BASE line of the tag when the
  currency has no line of its own.
\<close>

lemma get_account_value_base_fallback:
  "get_account_value
     [\<lparr>av_tag = ''TotalCashValue'', av_currency = ''BASE'', av_value = Some 1000\<rparr>]
     ''TotalCashValue'' (Some ''GBP'') = Some 1000"
  by (simp add: get_account_value_def)

section \<open>Protective exits: create or update\<close>

text \<open>\<open>_round_price_down_to_tick\<close> and \<open>_round_price_up_to_tick\<close>, on exact reals.\<close>

definition round_price_down_to_tick :: "real \<Rightarrow> real \<Rightarrow> real" where
  "round_price_down_to_tick price min_tick =
     (if min_tick \<le> 0 then price else of_int \<lfloor>price / min_tick\<rfloor> * min_tick)"

definition round_price_up_to_tick :: "real \<Rightarrow> real \<Rightarrow> real" where
  "round_price_up_to_tick price min_tick =
     (if min_tick \<le> 0 then price else of_int \<lceil>price / min_tick\<rceil> * min_tick)"

text \<open>
  The rounding at the head of the upsert operations. \<open>min_tick\<close> is the answer of
  \<open>_get_min_tick\<close>; the source rounds only when it is truthy (neither \<open>None\<close> nor 0).
\<close>

definition tick_rounded :: "(real \<Rightarrow> real \<Rightarrow> real) \<Rightarrow> real \<Rightarrow> real option \<Rightarrow> real" where
  "tick_rounded rounding price min_tick =
     (case min_tick of
        None \<Rightarrow> price
      | Some mt \<Rightarrow> if mt = 0 then price else rounding price mt)"

definition is_sell_stop :: "trade \<Rightarrow> bool" where
  "is_sell_stop t = (orderType (trade_order t) = STP \<and> action (trade_order t) = SELL)"

definition is_sell_limit :: "trade \<Rightarrow> bool" where
  "is_sell_limit t = (orderType (trade_order t) = LMT \<and> action (trade_order t) = SELL)"

text \<open>The loops \<open>for extra in ...[1:]\<close>: cancel each, a failure being logged only.\<close>

fun cancel_extras :: "ib_state \<Rightarrow> trade list \<Rightarrow> ib_state" where
  "cancel_extras ib [] = ib"
| "cancel_extras ib (extra # extras) =
     cancel_extras (snd (cancelOrder ib (trade_order extra))) extras"

text \<open>Putting an order into the exit group of its symbol.\<close>

definition link_exit :: "order \<Rightarrow> string \<Rightarrow> order" where
  "link_exit ord symbol = ord\<lparr>ocaGroup := OCA_EXIT symbol, ocaType := 1\<rparr>"

text \<open>
  \<open>upsert_stop_loss(contract, stop_price, quantity)\<close>: the contract is given by its
  symbol; the flag returned is the source's \<open>True\<close> / \<open>False\<close>.
\<close>

definition upsert_stop_loss ::
  "ib_state \<Rightarrow> string \<Rightarrow> real \<Rightarrow> int option \<Rightarrow> real option \<Rightarrow> bool \<times> ib_state" where
  "upsert_stop_loss ib symbol stop_price0 quantity min_tick =
     (if symbol = [] then (False, ib)
      else
        (let stop_price = tick_rounded round_price_down_to_tick stop_price0 min_tick;
             trades = get_open_trades_for_symbol ib symbol;
             stop_trades = filter is_sell_stop trades;
             tp_trades = filter is_sell_limit trades
         in case stop_trades of
              tr # extra_stops \<Rightarrow>
                (let ord0 = (trade_order tr)\<lparr>auxPrice := Some stop_price\<rparr> in
                 case tp_trades of
                   [] \<Rightarrow>
                     (let ib1 = snd (placeOrder ib (contract_symbol tr) ord0);
                          ib2 = cancel_extras ib1 extra_stops
                      in (True, ib2))
                 | tp # extra_tps \<Rightarrow>
                     (let ord1 = link_exit ord0 symbol;
                          ib1 = cancel_extras ib extra_tps;
                          tp_order = link_exit (trade_order tp) symbol;
                          ib2 = snd (placeOrder ib1 (contract_symbol tp) tp_order);
                          ib3 = snd (placeOrder ib2 (contract_symbol tr) ord1);
                          ib4 = cancel_extras ib3 extra_stops
                      in (True, ib4)))
            | [] \<Rightarrow>
                (let qty = (case quantity of Some q \<Rightarrow> q
                            | None \<Rightarrow> get_position_quantity ib symbol)
                 in if qty \<le> 0 then (False, ib)
                    else
                      (let sl_order = (StopOrder SELL qty stop_price)\<lparr>transmit := True\<rparr> in
                       case tp_trades of
                         [] \<Rightarrow> (True, snd (placeOrder ib symbol sl_order))
                       | tp # extra_tps \<Rightarrow>
                           (let sl1 = link_exit sl_order symbol;
                                ib1 = cancel_extras ib extra_tps;
                                tp_order = link_exit (trade_order tp) symbol;
                                ib2 = snd (placeOrder ib1 (contract_symbol tp) tp_order);
                                ib3 = snd (placeOrder ib2 symbol sl1)
                            in (True, ib3))))))"

text \<open>\<open>upsert_take_profit(contract, take_profit_price, quantity)\<close>, the mirror image.\<close>

definition upsert_take_profit ::
  "ib_state \<Rightarrow> string \<Rightarrow> real \<Rightarrow> int option \<Rightarrow> real option \<Rightarrow> bool \<times> ib_state" where
  "upsert_take_profit ib symbol take_profit_price0 quantity min_tick =
     (if symbol = [] then (False, ib)
      else
        (let take_profit_price = tick_rounded round_price_up_to_tick take_profit_price0 min_tick;
             trades = get_open_trades_for_symbol ib symbol;
             stop_trades = filter is_sell_stop trades;
             tp_trades = filter is_sell_limit trades
         in case tp_trades of
              tr # extra_tps \<Rightarrow>
                (let ord0 = (trade_order tr)\<lparr>lmtPrice := Some take_profit_price\<rparr> in
                 case stop_trades of
                   [] \<Rightarrow>
                     (let ib1 = snd (placeOrder ib (contract_symbol tr) ord0);
                          ib2 = cancel_extras ib1 extra_tps
                      in (True, ib2))
                 | sl # extra_stops \<Rightarrow>
                     (let ord1 = link_exit ord0 symbol;
                          ib1 = cancel_extras ib extra_stops;
                          sl_order = link_exit (trade_order sl) symbol;
                          ib2 = snd (placeOrder ib1 (contract_symbol sl) sl_order);
                          ib3 = snd (placeOrder ib2 (contract_symbol tr) ord1);
                          ib4 = cancel_extras ib3 extra_tps
                      in (True, ib4)))
            | [] \<Rightarrow>
                (let qty = (case quantity of Some q \<Rightarrow> q
                            | None \<Rightarrow> get_position_quantity ib symbol)
                 in if qty \<le> 0 then (False, ib)
                    else
                      (let tp_order = (LimitOrder SELL qty take_profit_price)\<lparr>transmit := True\<rparr> in
                       case stop_trades of
                         [] \<Rightarrow> (True, snd (placeOrder ib symbol tp_order))
                       | sl # extra_stops \<Rightarrow>
                           (let tp1 = link_exit tp_order symbol;
                                ib1 = cancel_extras ib extra_stops;
                                sl_order = link_exit (trade_order sl) symbol;
                                ib2 = snd (placeOrder ib1 (contract_symbol sl) sl_order);
                                ib3 = snd (placeOrder ib2 symbol tp1)
                            in (True, ib3))))))"

text \<open>\<open>get_pending_sell_orders_for_symbol\<close>: the open SELL orders of the symbol, of any type.\<close>

definition get_pending_sell_orders_for_symbol :: "ib_state \<Rightarrow> string \<Rightarrow> trade list" where
  "get_pending_sell_orders_for_symbol ib symbol =
     filter (\<lambda>t. action (trade_order t) = SELL) (get_open_trades_for_symbol ib symbol)"

section \<open>\<open>PositionManager\<close>: acting on a review\<close>

text \<open>The action of a position review; \<open>EXIT_SELL\<close> is the source's "SELL".\<close>

datatype review_action = HOLD | EXIT_SELL | ADJUST_STOP | ADJUST_TP

text \<open>The validated answer of \<open>review_position\<close>.\<close>

record position_review =
  pr_action :: review_action
  pr_new_stop_loss :: "real option"
  pr_new_take_profit :: "real option"
  pr_confidence :: real
  pr_urgency :: real
  pr_rationale :: string

text \<open>A row of \<open>position_reviews\<close>, written by \<open>log_position_review\<close>.\<close>

record review_row =
  rv_symbol :: string
  rv_current_price :: real
  rv_quantity :: int
  rv_action :: review_action
  rv_new_stop_loss :: "real option"
  rv_new_take_profit :: "real option"
  rv_executed :: bool

text \<open>A row of the trades table, written by \<open>record_trade\<close>.\<close>

record trade_row =
  tr_symbol :: string
  tr_action :: side
  tr_quantity :: int
  tr_price :: real
  tr_stop_loss :: "real option"
  tr_take_profit :: "real option"
  tr_sentiment_score :: real
  tr_status :: string
  tr_rationale :: string

record position_meta =
  adjustment_count :: nat
  peak_pnl_pct :: "real option"
  peak_price :: "real option"

record pm_state =
  pm_ib :: ib_state
  position_metadata :: "string \<Rightarrow> position_meta option"
  last_review :: "string \<Rightarrow> real option"
  trades_table :: "trade_row list"
  position_reviews :: "review_row list"

text \<open>The \<open>execution_result\<close> texts: "SOLD", "STOP -> x" and "TP -> x".\<close>

datatype execution_result = SOLD | STOP_TO real | TP_TO real

record review_result =
  res_action :: review_action
  res_executed :: bool
  res_execution_result :: "execution_result option"
  res_review_id :: nat

text \<open>\<open>UPDATE position_reviews SET executed = 1 WHERE id = review_id\<close>; ids count from 0.\<close>

definition mark_position_review_executed :: "review_row list \<Rightarrow> nat \<Rightarrow> review_row list" where
  "mark_position_review_executed rows review_id =
     (if review_id < length rows
      then rows[review_id := (rows ! review_id)\<lparr>rv_executed := True\<rparr>]
      else rows)"

definition clear_position_metadata :: "pm_state \<Rightarrow> string \<Rightarrow> pm_state" where
  "clear_position_metadata st symbol =
     st\<lparr>position_metadata := (position_metadata st)(symbol := None),
        last_review := (last_review st)(symbol := None)\<rparr>"

definition increment_adjustment_count :: "pm_state \<Rightarrow> string \<Rightarrow> pm_state" where
  "increment_adjustment_count st symbol =
     st\<lparr>position_metadata := (position_metadata st)
          (symbol \<mapsto>
             (case position_metadata st symbol of
                None \<Rightarrow> \<lparr>adjustment_count = 1, peak_pnl_pct = None, peak_price = None\<rparr>
              | Some m \<Rightarrow> m\<lparr>adjustment_count := Suc (adjustment_count m)\<rparr>))\<rparr>"

definition review_outcome ::
  "position_review \<Rightarrow> nat \<Rightarrow> bool \<Rightarrow> execution_result option \<Rightarrow> review_result" where
  "review_outcome ai review_id executed res =
     \<lparr>res_action = pr_action ai, res_executed = executed, res_execution_result = res,
      res_review_id = review_id\<rparr>"

text \<open>
  The decision stage of \<open>_review_single_position\<close>, from the logging of the AI's
  answer to the return: \<open>symbol\<close> and \<open>quantity\<close> are those of the position,
  \<open>current_price\<close> the price found for it and \<open>min_tick\<close> the tick of the contract.
\<close>

definition apply_position_review ::
  "pm_state \<Rightarrow> string \<Rightarrow> int \<Rightarrow> real \<Rightarrow> real option \<Rightarrow> position_review \<Rightarrow>
   review_result \<times> pm_state" where
  "apply_position_review st symbol quantity current_price min_tick ai =
     (let review_id = length (position_reviews st);
          st1 = st\<lparr>position_reviews := position_reviews st @
                  [\<lparr>rv_symbol = symbol, rv_current_price = current_price,
                    rv_quantity = quantity, rv_action = pr_action ai,
                    rv_new_stop_loss = pr_new_stop_loss ai,
                    rv_new_take_profit = pr_new_take_profit ai, rv_executed = False\<rparr>]\<rparr>
      in case pr_action ai of
           HOLD \<Rightarrow> (review_outcome ai review_id False None, st1)
         | EXIT_SELL \<Rightarrow>
             (if get_pending_sell_orders_for_symbol (pm_ib st1) symbol \<noteq> []
              then (review_outcome ai review_id False None, st1)
              else
                (case sell_position (pm_ib st1) symbol quantity of
                   (None, ib1) \<Rightarrow> (review_outcome ai review_id False None, st1\<lparr>pm_ib := ib1\<rparr>)
                 | (Some t, ib1) \<Rightarrow>
                     (review_outcome ai review_id True (Some SOLD),
                      (clear_position_metadata (st1\<lparr>pm_ib := ib1\<rparr>) symbol)
                        \<lparr>position_reviews :=
                           mark_position_review_executed (position_reviews st1) review_id,
                         trades_table := trades_table st1 @
                           [\<lparr>tr_symbol = symbol, tr_action = SELL, tr_quantity = quantity,
                             tr_price = current_price, tr_stop_loss = None,
                             tr_take_profit = None, tr_sentiment_score = pr_confidence ai,
                             tr_status = ''EXECUTED'', tr_rationale = pr_rationale ai\<rparr>]\<rparr>)))
         | ADJUST_STOP \<Rightarrow>
             (case pr_new_stop_loss ai of
                None \<Rightarrow> (review_outcome ai review_id False None, st1)
              | Some new_stop \<Rightarrow>
                  if new_stop \<le> 0 \<or> current_price \<le> new_stop
                  then (review_outcome ai review_id False None, st1)
                  else
                    (case upsert_stop_loss (pm_ib st1) symbol new_stop (Some quantity) min_tick of
                       (True, ib1) \<Rightarrow>
                         (review_outcome ai review_id True (Some (STOP_TO new_stop)),
                          (increment_adjustment_count (st1\<lparr>pm_ib := ib1\<rparr>) symbol)
                            \<lparr>position_reviews :=
                               mark_position_review_executed (position_reviews st1) review_id\<rparr>)
                     | (False, ib1) \<Rightarrow>
                         (review_outcome ai review_id False None, st1\<lparr>pm_ib := ib1\<rparr>)))
         | ADJUST_TP \<Rightarrow>
             (case pr_new_take_profit ai of
                None \<Rightarrow> (review_outcome ai review_id False None, st1)
              | Some new_tp \<Rightarrow>
                  if new_tp \<le> current_price
                  then (review_outcome ai review_id False None, st1)
                  else
                    (case upsert_take_profit (pm_ib st1) symbol new_tp (Some quantity) min_tick of
                       (True, ib1) \<Rightarrow>
                         (review_outcome ai review_id True (Some (TP_TO new_tp)),
                          (increment_adjustment_count (st1\<lparr>pm_ib := ib1\<rparr>) symbol)
                            \<lparr>position_reviews :=
                               mark_position_review_executed (position_reviews st1) review_id\<rparr>)
                     | (False, ib1) \<Rightarrow>
                         (review_outcome ai review_id False None, st1\<lparr>pm_ib := ib1\<rparr>))))"

text \<open>
  A well-formed session: the request-id counter is positive, and the open orders
  have distinct positive ids below it.
\<close>

definition ib_wf :: "ib_state \<Rightarrow> bool" where
  "ib_wf ib =
     (0 < next_req_id ib \<and>
      distinct (map (\<lambda>t. orderId (trade_order t)) (open_trades ib)) \<and>
      list_all (\<lambda>t. 0 < orderId (trade_order t) \<and> orderId (trade_order t) < next_req_id ib)
        (open_trades ib))"

text \<open>
  The standing property of the exits of a symbol: at most one live SELL STP, at most
  one live SELL LMT, and a stop and a take-profit that are both live share one OCA
  group.
\<close>

definition exit_invariant :: "ib_state \<Rightarrow> string \<Rightarrow> bool" where
  "exit_invariant ib symbol =
     (length (filter is_sell_stop (get_open_trades_for_symbol ib symbol)) \<le> 1 \<and>
      length (filter is_sell_limit (get_open_trades_for_symbol ib symbol)) \<le> 1 \<and>
      list_all
        (\<lambda>s. list_all
               (\<lambda>t. ocaGroup (trade_order s) = ocaGroup (trade_order t) \<and>
                    ocaGroup (trade_order s) \<noteq> NoOca)
               (filter is_sell_limit (get_open_trades_for_symbol ib symbol)))
        (filter is_sell_stop (get_open_trades_for_symbol ib symbol)))"

section \<open>Facts about the session operations\<close>

lemma cancelOrder_fields:
  "positions (snd (cancelOrder ib ord)) = positions ib \<and>
   next_req_id (snd (cancelOrder ib ord)) = next_req_id ib \<and>
   cancel_raises (snd (cancelOrder ib ord)) = cancel_raises ib"
  by (simp add: cancelOrder_def)

lemma cancel_each_extras: "snd (cancel_each ib ts) = cancel_extras ib ts"
proof (induction ts arbitrary: ib)
  case Nil
  then show ?case by simp
next
  case (Cons t ts)
  have "snd (cancel_each ib (t # ts)) = snd (cancel_each (snd (cancelOrder ib (trade_order t))) ts)"
    by (simp add: Let_def split: prod.splits)
  then show ?case using Cons.IH by simp
qed

text \<open>The cancellations that go through remove exactly the trades with those ids.\<close>

lemma cancel_extras_closed:
  "cancel_extras ib ts =
     ib\<lparr>open_trades :=
          filter (\<lambda>t. orderId (trade_order t) \<notin>
                       {orderId (trade_order e) | e.
                          e \<in> set ts \<and> orderId (trade_order e) \<notin> set (cancel_raises ib)})
                 (open_trades ib)\<rparr>"
proof (induction ts arbitrary: ib)
  case Nil
  then show ?case by simp
next
  case (Cons e ts)
  show ?case
  proof (cases "orderId (trade_order e) \<in> set (cancel_raises ib)")
    case True
    then have "cancel_extras ib (e # ts) = cancel_extras ib ts"
      by (simp add: cancelOrder_def)
    also have "\<dots> = ib\<lparr>open_trades :=
          filter (\<lambda>t. orderId (trade_order t) \<notin>
                       {orderId (trade_order e) | e.
                          e \<in> set ts \<and> orderId (trade_order e) \<notin> set (cancel_raises ib)})
                 (open_trades ib)\<rparr>"
      by (rule Cons.IH)
    also have "{orderId (trade_order e') | e'.
                  e' \<in> set ts \<and> orderId (trade_order e') \<notin> set (cancel_raises ib)} =
               {orderId (trade_order e') | e'.
                  e' \<in> set (e # ts) \<and> orderId (trade_order e') \<notin> set (cancel_raises ib)}"
      using True by auto
    finally show ?thesis .
  next
    case False
    let ?ib1 = "ib\<lparr>open_trades :=
        filter (\<lambda>t. orderId (trade_order t) \<noteq> orderId (trade_order e)) (open_trades ib)\<rparr>"
    have "cancel_extras ib (e # ts) = cancel_extras ?ib1 ts"
      using False by (simp add: cancelOrder_def)
    also have "\<dots> = ?ib1\<lparr>open_trades :=
          filter (\<lambda>t. orderId (trade_order t) \<notin>
                       {orderId (trade_order e) | e.
                          e \<in> set ts \<and> orderId (trade_order e) \<notin> set (cancel_raises ?ib1)})
                 (open_trades ?ib1)\<rparr>"
      by (rule Cons.IH)
    also have "\<dots> = ib\<lparr>open_trades :=
          filter (\<lambda>t. orderId (trade_order t) \<notin>
                       insert (orderId (trade_order e))
                         {orderId (trade_order e') | e'.
                            e' \<in> set ts \<and> orderId (trade_order e') \<notin> set (cancel_raises ib)})
                 (open_trades ib)\<rparr>"
      by (simp add: conj_commute)
    also have "insert (orderId (trade_order e))
                 {orderId (trade_order e') | e'.
                    e' \<in> set ts \<and> orderId (trade_order e') \<notin> set (cancel_raises ib)} =
               {orderId (trade_order e') | e'.
                  e' \<in> set (e # ts) \<and> orderId (trade_order e') \<notin> set (cancel_raises ib)}"
      using False by auto
    finally show ?thesis .
  qed
qed

text \<open>On a well-formed session, cancelling the orders of a symbol leaves the other
  symbols alone and keeps of the symbol only the orders whose cancellation raised.\<close>

lemma cancel_orders_for_symbol_closed:
  assumes "distinct (map (\<lambda>t. orderId (trade_order t)) (open_trades ib))"
  shows "snd (cancel_orders_for_symbol ib symbol) =
     ib\<lparr>open_trades :=
          filter (\<lambda>t. orderId (trade_order t) \<in> set (cancel_raises ib) \<or>
                      contract_symbol t \<noteq> symbol)
                 (open_trades ib)\<rparr>"
proof -
  have inj: "inj_on (\<lambda>t. orderId (trade_order t)) (set (open_trades ib))"
    using assms by (simp add: distinct_map)
  have "filter (\<lambda>t. orderId (trade_order t) \<notin>
                       {orderId (trade_order e) | e.
                          e \<in> set (get_open_trades_for_symbol ib symbol) \<and>
                          orderId (trade_order e) \<notin> set (cancel_raises ib)})
                 (open_trades ib) =
        filter (\<lambda>t. orderId (trade_order t) \<in> set (cancel_raises ib) \<or>
                      contract_symbol t \<noteq> symbol)
                 (open_trades ib)"
  proof (rule filter_cong [OF refl])
    fix t
    assume t: "t \<in> set (open_trades ib)"
    have "orderId (trade_order t) \<in>
            {orderId (trade_order e) | e.
               e \<in> set (get_open_trades_for_symbol ib symbol) \<and>
               orderId (trade_order e) \<notin> set (cancel_raises ib)}
          \<longleftrightarrow> contract_symbol t = symbol \<and> orderId (trade_order t) \<notin> set (cancel_raises ib)"
    proof
      assume "orderId (trade_order t) \<in>
            {orderId (trade_order e) | e.
               e \<in> set (get_open_trades_for_symbol ib symbol) \<and>
               orderId (trade_order e) \<notin> set (cancel_raises ib)}"
      then obtain e where e: "e \<in> set (open_trades ib)" "contract_symbol e = symbol"
          "orderId (trade_order e) \<notin> set (cancel_raises ib)"
          "orderId (trade_order t) = orderId (trade_order e)"
        by (auto simp: get_open_trades_for_symbol_def)
      then have "t = e" using inj t by (auto dest: inj_onD)
      with e show "contract_symbol t = symbol \<and> orderId (trade_order t) \<notin> set (cancel_raises ib)"
        by simp
    next
      assume "contract_symbol t = symbol \<and> orderId (trade_order t) \<notin> set (cancel_raises ib)"
      with t show "orderId (trade_order t) \<in>
            {orderId (trade_order e) | e.
               e \<in> set (get_open_trades_for_symbol ib symbol) \<and>
               orderId (trade_order e) \<notin> set (cancel_raises ib)}"
        by (auto simp: get_open_trades_for_symbol_def)
    qed
    then show "(orderId (trade_order t) \<notin>
                       {orderId (trade_order e) | e.
                          e \<in> set (get_open_trades_for_symbol ib symbol) \<and>
                          orderId (trade_order e) \<notin> set (cancel_raises ib)}) =
        (orderId (trade_order t) \<in> set (cancel_raises ib) \<or> contract_symbol t \<noteq> symbol)"
      by blast
  qed
  then show ?thesis
    by (simp add: cancel_orders_for_symbol_def cancel_each_extras
          cancel_extras_closed [of ib "get_open_trades_for_symbol ib symbol"])
qed

lemma sell_position_nothing:
  "quantity \<le> 0 \<or> get_position_quantity ib symbol \<le> 0 \<Longrightarrow>
   sell_position ib symbol quantity = (None, ib)"
  by (auto simp: sell_position_def Let_def)

lemma sell_position_placed:
  assumes "0 < quantity" and "0 < get_position_quantity ib symbol"
  shows "sell_position ib symbol quantity =
     (Some \<lparr>contract_symbol = symbol,
            trade_order = (MarketOrder SELL (min quantity (get_position_quantity ib symbol)))
              \<lparr>orderId := next_req_id ib\<rparr>\<rparr>,
      (snd (cancel_orders_for_symbol ib symbol))
        \<lparr>open_trades := open_trades (snd (cancel_orders_for_symbol ib symbol)) @
           [\<lparr>contract_symbol = symbol,
             trade_order = (MarketOrder SELL (min quantity (get_position_quantity ib symbol)))
               \<lparr>orderId := next_req_id ib\<rparr>\<rparr>],
         next_req_id := Suc (next_req_id ib)\<rparr>)"
proof -
  obtain n ib1 where c: "cancel_orders_for_symbol ib symbol = (n, ib1)"
    by (cases "cancel_orders_for_symbol ib symbol")
  then have "ib1 = cancel_extras ib (get_open_trades_for_symbol ib symbol)"
    using cancel_each_extras [of ib "get_open_trades_for_symbol ib symbol"]
    by (simp add: cancel_orders_for_symbol_def)
  then have nid: "next_req_id ib1 = next_req_id ib"
    by (simp add: cancel_extras_closed [of ib "get_open_trades_for_symbol ib symbol"])
  show ?thesis
    using assms c nid
    by (simp add: sell_position_def Let_def placeOrder_def getReqId_def MarketOrder_def)
qed

section \<open>A SELL decision of the position review\<close>

text \<open>
  C6, as the code has it. When the review answers SELL and a SELL order of any type
  is already open for the symbol, nothing is placed or changed: only the review row
  is written, not executed. When no SELL order is open and both the reviewed and the
  held quantity are positive, the open orders of the symbol are cancelled (on a
  well-formed session exactly those of the symbol whose cancellation does not
  raise), one market SELL of \<open>min quantity held\<close> is placed, the metadata and the
  last-review time of the symbol are cleared, the review row is marked executed,
  and exactly one trade row is appended: action SELL, the reviewed quantity, the
  current price, status "EXECUTED"; the result of the review is executed with
  "SOLD". When nothing is held, nothing is placed and no trade row is written.
\<close>

theorem sell_review_effects:
  "pr_action ai = EXIT_SELL \<longrightarrow>
     (get_pending_sell_orders_for_symbol (pm_ib st) symbol \<noteq> [] \<longrightarrow>
        apply_position_review st symbol quantity current_price min_tick ai =
          (\<lparr>res_action = EXIT_SELL, res_executed = False, res_execution_result = None,
            res_review_id = length (position_reviews st)\<rparr>,
           st\<lparr>position_reviews := position_reviews st @
                [\<lparr>rv_symbol = symbol, rv_current_price = current_price,
                  rv_quantity = quantity, rv_action = EXIT_SELL,
                  rv_new_stop_loss = pr_new_stop_loss ai,
                  rv_new_take_profit = pr_new_take_profit ai, rv_executed = False\<rparr>]\<rparr>)) \<and>
     (get_pending_sell_orders_for_symbol (pm_ib st) symbol = [] \<and>
      (quantity \<le> 0 \<or> get_position_quantity (pm_ib st) symbol \<le> 0) \<longrightarrow>
        apply_position_review st symbol quantity current_price min_tick ai =
          (\<lparr>res_action = EXIT_SELL, res_executed = False, res_execution_result = None,
            res_review_id = length (position_reviews st)\<rparr>,
           st\<lparr>position_reviews := position_reviews st @
                [\<lparr>rv_symbol = symbol, rv_current_price = current_price,
                  rv_quantity = quantity, rv_action = EXIT_SELL,
                  rv_new_stop_loss = pr_new_stop_loss ai,
                  rv_new_take_profit = pr_new_take_profit ai, rv_executed = False\<rparr>]\<rparr>)) \<and>
     (get_pending_sell_orders_for_symbol (pm_ib st) symbol = [] \<and>
      0 < quantity \<and> 0 < get_position_quantity (pm_ib st) symbol \<longrightarrow>
        apply_position_review st symbol quantity current_price min_tick ai =
          (\<lparr>res_action = EXIT_SELL, res_executed = True, res_execution_result = Some SOLD,
            res_review_id = length (position_reviews st)\<rparr>,
           st\<lparr>pm_ib :=
                (snd (cancel_orders_for_symbol (pm_ib st) symbol))
                  \<lparr>open_trades :=
                     open_trades (snd (cancel_orders_for_symbol (pm_ib st) symbol)) @
                       [\<lparr>contract_symbol = symbol,
                         trade_order =
                           (MarketOrder SELL
                              (min quantity (get_position_quantity (pm_ib st) symbol)))
                             \<lparr>orderId := next_req_id (pm_ib st)\<rparr>\<rparr>],
                   next_req_id := Suc (next_req_id (pm_ib st))\<rparr>,
              position_metadata := (position_metadata st)(symbol := None),
              last_review := (last_review st)(symbol := None),
              trades_table := trades_table st @
                [\<lparr>tr_symbol = symbol, tr_action = SELL, tr_quantity = quantity,
                  tr_price = current_price, tr_stop_loss = None, tr_take_profit = None,
                  tr_sentiment_score = pr_confidence ai, tr_status = ''EXECUTED'',
                  tr_rationale = pr_rationale ai\<rparr>],
              position_reviews := position_reviews st @
                [\<lparr>rv_symbol = symbol, rv_current_price = current_price,
                  rv_quantity = quantity, rv_action = EXIT_SELL,
                  rv_new_stop_loss = pr_new_stop_loss ai,
                  rv_new_take_profit = pr_new_take_profit ai, rv_executed = True\<rparr>]\<rparr>) \<and>
        (ib_wf (pm_ib st) \<longrightarrow>
           open_trades (snd (cancel_orders_for_symbol (pm_ib st) symbol)) =
             filter (\<lambda>t. orderId (trade_order t) \<in> set (cancel_raises (pm_ib st)) \<or>
                         contract_symbol t \<noteq> symbol)
                    (open_trades (pm_ib st))))"
proof (intro conjI impI)
  assume a: "pr_action ai = EXIT_SELL"
  assume "get_pending_sell_orders_for_symbol (pm_ib st) symbol \<noteq> []"
  then show "apply_position_review st symbol quantity current_price min_tick ai =
          (\<lparr>res_action = EXIT_SELL, res_executed = False, res_execution_result = None,
            res_review_id = length (position_reviews st)\<rparr>,
           st\<lparr>position_reviews := position_reviews st @
                [\<lparr>rv_symbol = symbol, rv_current_price = current_price,
                  rv_quantity = quantity, rv_action = EXIT_SELL,
                  rv_new_stop_loss = pr_new_stop_loss ai,
                  rv_new_take_profit = pr_new_take_profit ai, rv_executed = False\<rparr>]\<rparr>)"
    using a by (simp add: apply_position_review_def Let_def review_outcome_def)
next
  assume a: "pr_action ai = EXIT_SELL"
  assume h: "get_pending_sell_orders_for_symbol (pm_ib st) symbol = [] \<and>
      (quantity \<le> 0 \<or> get_position_quantity (pm_ib st) symbol \<le> 0)"
  then have "sell_position (pm_ib st) symbol quantity = (None, pm_ib st)"
    using sell_position_nothing by blast
  then show "apply_position_review st symbol quantity current_price min_tick ai =
          (\<lparr>res_action = EXIT_SELL, res_executed = False, res_execution_result = None,
            res_review_id = length (position_reviews st)\<rparr>,
           st\<lparr>position_reviews := position_reviews st @
                [\<lparr>rv_symbol = symbol, rv_current_price = current_price,
                  rv_quantity = quantity, rv_action = EXIT_SELL,
                  rv_new_stop_loss = pr_new_stop_loss ai,
                  rv_new_take_profit = pr_new_take_profit ai, rv_executed = False\<rparr>]\<rparr>)"
    using a h by (simp add: apply_position_review_def Let_def review_outcome_def)
next
  assume a: "pr_action ai = EXIT_SELL"
  assume h: "get_pending_sell_orders_for_symbol (pm_ib st) symbol = [] \<and>
      0 < quantity \<and> 0 < get_position_quantity (pm_ib st) symbol"
  then have sp: "sell_position (pm_ib st) symbol quantity =
     (Some \<lparr>contract_symbol = symbol,
            trade_order =
              (MarketOrder SELL (min quantity (get_position_quantity (pm_ib st) symbol)))
                \<lparr>orderId := next_req_id (pm_ib st)\<rparr>\<rparr>,
      (snd (cancel_orders_for_symbol (pm_ib st) symbol))
        \<lparr>open_trades := open_trades (snd (cancel_orders_for_symbol (pm_ib st) symbol)) @
           [\<lparr>contract_symbol = symbol,
             trade_order =
               (MarketOrder SELL (min quantity (get_position_quantity (pm_ib st) symbol)))
                 \<lparr>orderId := next_req_id (pm_ib st)\<rparr>\<rparr>],
         next_req_id := Suc (next_req_id (pm_ib st))\<rparr>)"
    using sell_position_placed by blast
  show "apply_position_review st symbol quantity current_price min_tick ai =
          (\<lparr>res_action = EXIT_SELL, res_executed = True, res_execution_result = Some SOLD,
            res_review_id = length (position_reviews st)\<rparr>,
           st\<lparr>pm_ib :=
                (snd (cancel_orders_for_symbol (pm_ib st) symbol))
                  \<lparr>open_trades :=
                     open_trades (snd (cancel_orders_for_symbol (pm_ib st) symbol)) @
                       [\<lparr>contract_symbol = symbol,
                         trade_order =
                           (MarketOrder SELL
                              (min quantity (get_position_quantity (pm_ib st) symbol)))
                             \<lparr>orderId := next_req_id (pm_ib st)\<rparr>\<rparr>],
                   next_req_id := Suc (next_req_id (pm_ib st))\<rparr>,
              position_metadata := (position_metadata st)(symbol := None),
              last_review := (last_review st)(symbol := None),
              trades_table := trades_table st @
                [\<lparr>tr_symbol = symbol, tr_action = SELL, tr_quantity = quantity,
                  tr_price = current_price, tr_stop_loss = None, tr_take_profit = None,
                  tr_sentiment_score = pr_confidence ai, tr_status = ''EXECUTED'',
                  tr_rationale = pr_rationale ai\<rparr>],
              position_reviews := position_reviews st @
                [\<lparr>rv_symbol = symbol, rv_current_price = current_price,
                  rv_quantity = quantity, rv_action = EXIT_SELL,
                  rv_new_stop_loss = pr_new_stop_loss ai,
                  rv_new_take_profit = pr_new_take_profit ai, rv_executed = True\<rparr>]\<rparr>)"
    using a h
    by (simp add: apply_position_review_def Let_def review_outcome_def sp
          clear_position_metadata_def mark_position_review_executed_def)
next
  assume "ib_wf (pm_ib st)"
  then have "distinct (map (\<lambda>t. orderId (trade_order t)) (open_trades (pm_ib st)))"
    by (simp add: ib_wf_def)
  from cancel_orders_for_symbol_closed [OF this, of symbol]
  show "open_trades (snd (cancel_orders_for_symbol (pm_ib st) symbol)) =
             filter (\<lambda>t. orderId (trade_order t) \<in> set (cancel_raises (pm_ib st)) \<or>
                         contract_symbol t \<noteq> symbol)
                    (open_trades (pm_ib st))"
    by simp
qed

definition held_session :: ib_state where
  "held_session =
     \<lparr>open_trades =
        [\<lparr>contract_symbol = ''ACME'', trade_order = (LimitOrder BUY 5 40)\<lparr>orderId := 3\<rparr>\<rparr>,
         \<lparr>contract_symbol = ''VOD'', trade_order = (StopOrder SELL 20 60)\<lparr>orderId := 4\<rparr>\<rparr>],
      positions = [(''ACME'', 10), (''VOD'', 20)], next_req_id = 8, cancel_raises = []\<rparr>"

definition held_book :: pm_state where
  "held_book =
     \<lparr>pm_ib = held_session,
      position_metadata =
        [''ACME'' \<mapsto> \<lparr>adjustment_count = 0, peak_pnl_pct = Some 15, peak_price = Some 57\<rparr>],
      last_review = [''ACME'' \<mapsto> 1000],
      trades_table = [], position_reviews = []\<rparr>"

definition sell_now :: position_review where
  "sell_now =
     \<lparr>pr_action = EXIT_SELL, pr_new_stop_loss = None, pr_new_take_profit = None,
      pr_confidence = 8 / 10, pr_urgency = 9 / 10, pr_rationale = ''gave back gains''\<rparr>"

lemma held_session_facts:
  "get_pending_sell_orders_for_symbol held_session ''ACME'' = [] \<and>
   get_position_quantity held_session ''ACME'' = 10 \<and> ib_wf held_session \<and>
   get_pending_sell_orders_for_symbol held_session ''VOD'' \<noteq> []"
  by (simp add: held_session_def get_pending_sell_orders_for_symbol_def
        get_open_trades_for_symbol_def get_position_quantity_def py_int_def ib_wf_def
        LimitOrder_def StopOrder_def)

theorem sell_review_effects_witness:
  "fst (apply_position_review held_book ''ACME'' 10 54 None sell_now) =
     \<lparr>res_action = EXIT_SELL, res_executed = True, res_execution_result = Some SOLD,
      res_review_id = 0\<rparr> \<and>
   open_trades (pm_ib (snd (apply_position_review held_book ''ACME'' 10 54 None sell_now))) =
     [\<lparr>contract_symbol = ''VOD'', trade_order = (StopOrder SELL 20 60)\<lparr>orderId := 4\<rparr>\<rparr>,
      \<lparr>contract_symbol = ''ACME'', trade_order = (MarketOrder SELL 10)\<lparr>orderId := 8\<rparr>\<rparr>] \<and>
   position_metadata (snd (apply_position_review held_book ''ACME'' 10 54 None sell_now)) ''ACME''
     = None \<and>
   trades_table (snd (apply_position_review held_book ''ACME'' 10 54 None sell_now)) =
     [\<lparr>tr_symbol = ''ACME'', tr_action = SELL, tr_quantity = 10, tr_price = 54,
       tr_stop_loss = None, tr_take_profit = None, tr_sentiment_score = 8 / 10,
       tr_status = ''EXECUTED'', tr_rationale = ''gave back gains''\<rparr>] \<and>
   map rv_executed
     (position_reviews (snd (apply_position_review held_book ''ACME'' 10 54 None sell_now))) =
     [True] \<and>
   apply_position_review held_book ''VOD'' 20 61 None sell_now =
     (\<lparr>res_action = EXIT_SELL, res_executed = False, res_execution_result = None,
       res_review_id = 0\<rparr>,
      held_book\<lparr>position_reviews :=
        [\<lparr>rv_symbol = ''VOD'', rv_current_price = 61, rv_quantity = 20, rv_action = EXIT_SELL,
          rv_new_stop_loss = None, rv_new_take_profit = None, rv_executed = False\<rparr>]\<rparr>)"
proof -
  have a: "pr_action sell_now = EXIT_SELL" by (simp add: sell_now_def)
  have ib: "pm_ib held_book = held_session" by (simp add: held_book_def)
  have h: "get_pending_sell_orders_for_symbol (pm_ib held_book) ''ACME'' = [] \<and>
      (0::int) < 10 \<and> 0 < get_position_quantity (pm_ib held_book) ''ACME''"
    using held_session_facts by (simp add: ib)
  have wf: "ib_wf (pm_ib held_book)" using held_session_facts by (simp add: ib)
  have p: "get_pending_sell_orders_for_symbol (pm_ib held_book) ''VOD'' \<noteq> []"
    using held_session_facts by (simp add: ib)
  note sold = sell_review_effects
      [where ai = sell_now and st = held_book and symbol = "''ACME''" and quantity = 10
         and current_price = 54 and min_tick = None,
       THEN mp, OF a, THEN conjunct2, THEN conjunct2, THEN mp, OF h]
  note refused = sell_review_effects
      [where ai = sell_now and st = held_book and symbol = "''VOD''" and quantity = 20
         and current_price = 61 and min_tick = None,
       THEN mp, OF a, THEN conjunct1, THEN mp, OF p]
  have c: "open_trades (snd (cancel_orders_for_symbol (pm_ib held_book) ''ACME'')) =
      [\<lparr>contract_symbol = ''VOD'', trade_order = (StopOrder SELL 20 60)\<lparr>orderId := 4\<rparr>\<rparr>]"
    using sold [THEN conjunct2, THEN mp, OF wf]
    by (simp add: ib) (simp add: held_session_def)
  have q: "get_position_quantity (pm_ib held_book) ''ACME'' = 10"
    and n: "next_req_id (pm_ib held_book) = 8"
    using held_session_facts by (simp_all add: ib) (simp add: held_session_def)
  have r: "apply_position_review held_book ''VOD'' 20 61 None sell_now =
     (\<lparr>res_action = EXIT_SELL, res_executed = False, res_execution_result = None,
       res_review_id = 0\<rparr>,
      held_book\<lparr>position_reviews :=
        [\<lparr>rv_symbol = ''VOD'', rv_current_price = 61, rv_quantity = 20, rv_action = EXIT_SELL,
          rv_new_stop_loss = None, rv_new_take_profit = None, rv_executed = False\<rparr>]\<rparr>)"
    by (simp add: refused) (simp add: held_book_def sell_now_def)
  show ?thesis
    by (simp add: sold [THEN conjunct1] r c q n)
       (simp add: held_book_def sell_now_def)
qed

text \<open>
  The claim as stated fails on the status: the one trade row written for an executed
  SELL has status "EXECUTED"; "SOLD" is the execution result of the review.
\<close>

theorem sell_trade_status_counterexample:
  "map tr_status
     (trades_table (snd (apply_position_review held_book ''ACME'' 10 54 None sell_now))) =
     [''EXECUTED''] \<and>
   map tr_action
     (trades_table (snd (apply_position_review held_book ''ACME'' 10 54 None sell_now))) =
     [SELL] \<and>
   ''EXECUTED'' \<noteq> ''SOLD'' \<and>
   res_execution_result (fst (apply_position_review held_book ''ACME'' 10 54 None sell_now)) =
     Some SOLD"
proof -
  have sp: "sell_position held_session ''ACME'' 10 =
     (Some \<lparr>contract_symbol = ''ACME'',
            trade_order =
              (MarketOrder SELL (min 10 (get_position_quantity held_session ''ACME'')))
                \<lparr>orderId := next_req_id held_session\<rparr>\<rparr>,
      (snd (cancel_orders_for_symbol held_session ''ACME''))
        \<lparr>open_trades := open_trades (snd (cancel_orders_for_symbol held_session ''ACME'')) @
           [\<lparr>contract_symbol = ''ACME'',
             trade_order =
               (MarketOrder SELL (min 10 (get_position_quantity held_session ''ACME'')))
                 \<lparr>orderId := next_req_id held_session\<rparr>\<rparr>],
         next_req_id := Suc (next_req_id held_session)\<rparr>)"
    using held_session_facts by (intro sell_position_placed) simp_all
  show ?thesis
    using held_session_facts
    by (simp add: apply_position_review_def Let_def review_outcome_def sp held_book_def
          sell_now_def clear_position_metadata_def)
qed

section \<open>What an upsert leaves in the session\<close>





lemma cancel_extras_next_id: "next_req_id (cancel_extras ib ts) = next_req_id ib"
  by (simp add: cancel_extras_closed [of ib ts])

lemma placeOrder_next_id_modify:
  "orderId ord \<noteq> 0 \<Longrightarrow> next_req_id (snd (placeOrder ib symbol ord)) = next_req_id ib"
  by (simp add: placeOrder_def Let_def split: list.splits)







section \<open>Adjustments are checked against the current price\<close>









end
